theory Spec2Isabelle
  imports Complex_Main "HOL-Library.Sublist" "HOL-Library.Multiset"
begin

section \<open>Data model (models.py)\<close>

text \<open>
  The Python enums become datatypes and the pydantic models become records. A Python
  \<^verbatim>\<open>float\<close> is modelled as a \<^typ>\<open>real\<close>: arithmetic is exact, comparisons are the
  mathematical ones, and NaN and the infinities are left out. A raised exception is a
  value \<open>Inl e\<close> of the result type \<open>error + 'a\<close>.
\<close>

datatype CloudProvider = AWS | AZURE | GCP | MULTI

datatype ComplianceLevel = NONE | BASIC | HIPAA | SOC2 | PCI | GDPR

datatype SkillLevel = BEGINNER | INTERMEDIATE | ADVANCED | EXPERT

record TechOption =
  name :: string
  description :: string
  cost :: real
  latency :: real
  scalability :: real
  compliance :: ComplianceLevel
  cloud :: CloudProvider
  team_skill_required :: SkillLevel
  pros :: "string list"
  cons :: "string list"

record Constraints =
  budget :: real
  max_latency :: real
  required_scale :: real
  compliance :: ComplianceLevel
  preferred_cloud :: "CloudProvider option"
  team_skill :: SkillLevel

record ComparisonRequest =
  options :: "TechOption list"
  constraints :: Constraints
  use_case :: string
  request_description :: "string option"

record OptionScore =
  option_name :: string
  total_score :: real
  cost_score :: real
  latency_score :: real
  scalability_score :: real
  compliance_score :: real
  cloud_score :: real
  skill_score :: real
  weighted_score :: real

record TradeOff =
  option_a :: string
  option_b :: string
  dimension :: string
  winner :: string
  explanation :: string
  impact :: string

text \<open>
  The exceptions the code can raise. \<open>EmptySequenceError\<close> is the \<^verbatim>\<open>ValueError\<close> that
  \<^verbatim>\<open>max\<close> raises on an empty sequence, \<open>DatabaseError\<close> stands for an error raised by
  sqlite3, and \<open>HTTPException\<close> is FastAPI's, a subclass of \<^verbatim>\<open>Exception\<close> like the
  others.
\<close>

datatype error =
    ZeroDivisionError
  | KeyError string
  | IndexError
  | ValueError string
  | EmptySequenceError
  | DatabaseError string
  | HTTPException nat string

section \<open>Scoring engine (scoring.py)\<close>

text \<open>The weights dictionary of \<^verbatim>\<open>ScoringEngine.__init__\<close>.\<close>

definition weights :: "(string \<times> real) list" where
  "weights =
     [(''cost'', 0.25), (''latency'', 0.20), (''scalability'', 0.20),
      (''compliance'', 0.15), (''cloud'', 0.10), (''skill'', 0.10)]"

definition weight :: "string \<Rightarrow> real" where
  "weight k = (case map_of weights k of Some w \<Rightarrow> w | None \<Rightarrow> 0)"

text \<open>
  \<^verbatim>\<open>round(x, 2)\<close>: the nearest multiple of 1/100, a tie going to the even one.
\<close>

definition round2 :: "real \<Rightarrow> real" where
  "round2 x =
     (let y = x * 100; f = \<lfloor>y\<rfloor>; d = y - of_int f
      in of_int (if d < 1 / 2 then f
                 else if 1 / 2 < d then f + 1
                 else if even f then f else f + 1) / 100)"

definition score_cost :: "real \<Rightarrow> real \<Rightarrow> error + real" where
  "score_cost option_cost budget_constraint =
     (if budget_constraint \<ge> option_cost then Inr 10
      else if budget_constraint = 0 then Inl ZeroDivisionError
      else (let penalty = (option_cost - budget_constraint) / budget_constraint
            in Inr (max 0 (10 - penalty * 5))))"

definition score_latency :: "real \<Rightarrow> real \<Rightarrow> error + real" where
  "score_latency option_latency latency_constraint =
     (if option_latency \<le> latency_constraint then Inr 10
      else if latency_constraint = 0 then Inl ZeroDivisionError
      else (let penalty = (option_latency - latency_constraint) / latency_constraint
            in Inr (max 0 (10 - penalty * 5))))"

definition score_scalability :: "real \<Rightarrow> real \<Rightarrow> error + real" where
  "score_scalability option_scalability required_scale' =
     (if option_scalability \<ge> required_scale' then
        (if required_scale' = 0 then Inl ZeroDivisionError
         else (let bonus = min 2 ((option_scalability - required_scale') / required_scale')
               in Inr (min 10 (8 + bonus))))
      else
        (if required_scale' = 0 then Inl ZeroDivisionError
         else (let penalty = (required_scale' - option_scalability) / required_scale'
               in Inr (max 0 (8 - penalty * 8)))))"

fun compliance_levels :: "ComplianceLevel \<Rightarrow> int" where
  "compliance_levels NONE = 0"
| "compliance_levels BASIC = 1"
| "compliance_levels SOC2 = 2"
| "compliance_levels HIPAA = 3"
| "compliance_levels PCI = 3"
| "compliance_levels GDPR = 4"

definition score_compliance :: "ComplianceLevel \<Rightarrow> ComplianceLevel \<Rightarrow> real" where
  "score_compliance option_compliance required_compliance =
     (let option_level = compliance_levels option_compliance;
          required_level = compliance_levels required_compliance
      in if option_level \<ge> required_level then 10
         else of_int (max 0 (10 - (required_level - option_level) * 3)))"

definition score_cloud :: "CloudProvider \<Rightarrow> CloudProvider option \<Rightarrow> real" where
  "score_cloud option_cloud preferred =
     (case preferred of
        None \<Rightarrow> 8
      | Some p \<Rightarrow> if option_cloud = p then 10
                  else if option_cloud = MULTI then 9
                  else 6)"

fun skill_levels :: "SkillLevel \<Rightarrow> int" where
  "skill_levels BEGINNER = 1"
| "skill_levels INTERMEDIATE = 2"
| "skill_levels ADVANCED = 3"
| "skill_levels EXPERT = 4"

definition score_skill :: "SkillLevel \<Rightarrow> SkillLevel \<Rightarrow> real" where
  "score_skill required_skill team_skill' =
     (let required_level = skill_levels required_skill;
          team_level = skill_levels team_skill'
      in if team_level \<ge> required_level then 10
         else (let gap = required_level - team_level
               in of_int (max 0 (10 - gap * 3))))"

text \<open>
  The weighted and the unweighted combination of six dimension scores, as
  \<^verbatim>\<open>_score_single_option\<close> forms them before rounding.
\<close>

definition weighted_sum :: "real \<Rightarrow> real \<Rightarrow> real \<Rightarrow> real \<Rightarrow> real \<Rightarrow> real \<Rightarrow> real" where
  "weighted_sum cs ls ss ps ds ks =
     cs * weight ''cost'' + ls * weight ''latency'' + ss * weight ''scalability'' +
     ps * weight ''compliance'' + ds * weight ''cloud'' + ks * weight ''skill''"

definition score_single_option :: "TechOption \<Rightarrow> Constraints \<Rightarrow> error + OptionScore" where
  "score_single_option opt c =
     (case score_cost (cost opt) (budget c) of
        Inl e \<Rightarrow> Inl e
      | Inr cs \<Rightarrow>
     (case score_latency (latency opt) (max_latency c) of
        Inl e \<Rightarrow> Inl e
      | Inr ls \<Rightarrow>
     (case score_scalability (scalability opt) (required_scale c) of
        Inl e \<Rightarrow> Inl e
      | Inr ss \<Rightarrow>
        (let ps = score_compliance (TechOption.compliance opt) (Constraints.compliance c);
             ds = score_cloud (cloud opt) (preferred_cloud c);
             ks = score_skill (team_skill_required opt) (team_skill c);
             weighted = weighted_sum cs ls ss ps ds ks;
             total = (cs + ls + ss + ps + ds + ks) / 6
         in Inr \<lparr>option_name = name opt,
                 total_score = round2 total,
                 cost_score = round2 cs,
                 latency_score = round2 ls,
                 scalability_score = round2 ss,
                 compliance_score = round2 ps,
                 cloud_score = round2 ds,
                 skill_score = round2 ks,
                 weighted_score = round2 weighted\<rparr>))))"

text \<open>The loop of \<^verbatim>\<open>score_options\<close>: the first exception ends it.\<close>

fun score_each :: "TechOption list \<Rightarrow> Constraints \<Rightarrow> error + OptionScore list" where
  "score_each [] c = Inr []"
| "score_each (opt # rest) c =
     (case score_single_option opt c of
        Inl e \<Rightarrow> Inl e
      | Inr s \<Rightarrow> (case score_each rest c of
                   Inl e \<Rightarrow> Inl e
                 | Inr scores \<Rightarrow> Inr (s # scores)))"

text \<open>
  \<^verbatim>\<open>sorted(xs, key=k, reverse=True)\<close>: CPython reverses the list, sorts it stably in
  ascending order of the key, and reverses the result.
\<close>

definition sorted_reverse :: "('a \<Rightarrow> real) \<Rightarrow> 'a list \<Rightarrow> 'a list" where
  "sorted_reverse k xs = rev (sort_key k (rev xs))"

definition score_options :: "TechOption list \<Rightarrow> Constraints \<Rightarrow> error + OptionScore list" where
  "score_options opts c =
     (case score_each opts c of
        Inl e \<Rightarrow> Inl e
      | Inr scores \<Rightarrow> Inr (sorted_reverse weighted_score scores))"

section \<open>Trade-off generator (tradeoffs.py)\<close>

definition dimensions :: "string list" where
  "dimensions = [''cost'', ''latency'', ''scalability'', ''compliance'', ''cloud'', ''skill'']"

definition calculate_impact :: "real \<Rightarrow> string" where
  "calculate_impact score_difference =
     (if score_difference \<ge> 4 then ''high''
      else if score_difference \<ge> 2 then ''medium''
      else ''low'')"

text \<open>
  \<^verbatim>\<open>_compare_options\<close> repeats one block six times, once per dimension; the blocks
  differ in the score field read, the dimension string and the phrase of the
  explanation. \<open>compare_dimension\<close> is that block, given the two scores of the field.
\<close>

definition compare_dimension ::
  "string \<Rightarrow> string \<Rightarrow> TechOption \<Rightarrow> TechOption \<Rightarrow> real \<Rightarrow> real \<Rightarrow> TradeOff list" where
  "compare_dimension dimension_name phrase opt_a opt_b score_a score_b =
     (if \<bar>score_a - score_b\<bar> > 1 then
        (let winner' = (if score_a > score_b then name opt_a else name opt_b);
             loser = (if winner' = name opt_a then name opt_b else name opt_a)
         in [\<lparr>option_a = name opt_a,
               option_b = name opt_b,
               dimension = dimension_name,
               winner = winner',
               explanation = winner' @ phrase @ loser,
               impact = calculate_impact \<bar>score_a - score_b\<bar>\<rparr>])
      else [])"

definition compare_options ::
  "TechOption \<Rightarrow> TechOption \<Rightarrow> OptionScore \<Rightarrow> OptionScore \<Rightarrow> TradeOff list" where
  "compare_options opt_a opt_b score_a score_b =
     compare_dimension ''cost'' '' is more cost-effective than '' opt_a opt_b
       (cost_score score_a) (cost_score score_b) @
     compare_dimension ''latency'' '' offers better latency performance than '' opt_a opt_b
       (latency_score score_a) (latency_score score_b) @
     compare_dimension ''scalability'' '' scales better than '' opt_a opt_b
       (scalability_score score_a) (scalability_score score_b) @
     compare_dimension ''compliance'' '' better meets compliance requirements than '' opt_a opt_b
       (compliance_score score_a) (compliance_score score_b) @
     compare_dimension ''cloud'' '' better aligns with cloud preferences than '' opt_a opt_b
       (cloud_score score_a) (cloud_score score_b) @
     compare_dimension ''skill'' '' better matches team skill level than '' opt_a opt_b
       (skill_score score_a) (skill_score score_b)"

text \<open>
  The dictionary comprehension \<^verbatim>\<open>{score.option_name: score for score in scores}\<close>: a
  later score replaces an earlier one of the same name.
\<close>

definition score_lookup :: "OptionScore list \<Rightarrow> string \<rightharpoonup> OptionScore" where
  "score_lookup scores = fold (\<lambda>s m. m(option_name s \<mapsto> s)) scores Map.empty"

text \<open>The index pairs of the two nested \<^verbatim>\<open>range\<close> loops, in the order they are visited.\<close>

definition index_pairs :: "nat \<Rightarrow> (nat \<times> nat) list" where
  "index_pairs n = concat (map (\<lambda>i. map (\<lambda>j. (i, j)) [i + 1..<n]) [0..<n])"

text \<open>The body of the inner loop; a name missing from the dictionary raises \<^verbatim>\<open>KeyError\<close>.\<close>

definition pair_tradeoffs ::
  "(string \<rightharpoonup> OptionScore) \<Rightarrow> TechOption list \<Rightarrow> nat \<times> nat \<Rightarrow> error + TradeOff list" where
  "pair_tradeoffs lookup opts ij =
     (let opt_a = opts ! fst ij; opt_b = opts ! snd ij
      in case lookup (name opt_a) of
           None \<Rightarrow> Inl (KeyError (name opt_a))
         | Some score_a \<Rightarrow>
             (case lookup (name opt_b) of
                None \<Rightarrow> Inl (KeyError (name opt_b))
              | Some score_b \<Rightarrow> Inr (compare_options opt_a opt_b score_a score_b)))"

text \<open>\<^verbatim>\<open>tradeoffs.extend(...)\<close> over the visited pairs, ended by the first exception.\<close>

fun extend_each ::
  "(string \<rightharpoonup> OptionScore) \<Rightarrow> TechOption list \<Rightarrow> (nat \<times> nat) list \<Rightarrow> error + TradeOff list" where
  "extend_each lookup opts [] = Inr []"
| "extend_each lookup opts (ij # rest) =
     (case pair_tradeoffs lookup opts ij of
        Inl e \<Rightarrow> Inl e
      | Inr ts \<Rightarrow> (case extend_each lookup opts rest of
                    Inl e \<Rightarrow> Inl e
                  | Inr tradeoffs \<Rightarrow> Inr (ts @ tradeoffs)))"

definition generate_tradeoffs :: "TechOption list \<Rightarrow> OptionScore list \<Rightarrow> error + TradeOff list" where
  "generate_tradeoffs opts scores =
     extend_each (score_lookup scores) opts (index_pairs (length opts))"

section \<open>Narrative analyzer (kiro_agent.py)\<close>

text \<open>
  The analysis record. Two of its texts embed values whose rendering is not fixed by the
  source: the summary formats an integer and a float, and one insight joins a Python
  set, whose iteration order is unspecified. The model keeps these values as they are:
  a summary is a list of segments, and the insight on critical trade-offs carries the
  set of dimensions.
\<close>

datatype segment = Str string | IntVal nat | FloatVal real

datatype insight = Text string | CriticalTradeoffs "string set"

record KiroAnalysis =
  summary :: "segment list"
  key_insights :: "insight list"
  recommendations :: "string list"
  risk_factors :: "string list"
  best_for_scenarios :: "(string \<times> string) list"

record ComparisonResult =
  comparison_id :: "string option"
  scores :: "OptionScore list"
  tradeoffs :: "TradeOff list"
  kiro_analysis :: KiroAnalysis
  timestamp :: "string option"

record Context =
  primary_concern :: string
  risk_tolerance :: string
  decision_type :: string

text \<open>The string values of the enums, read by \<^verbatim>\<open>.value\<close>.\<close>

fun compliance_value :: "ComplianceLevel \<Rightarrow> string" where
  "compliance_value NONE = ''none''"
| "compliance_value BASIC = ''basic''"
| "compliance_value HIPAA = ''hipaa''"
| "compliance_value SOC2 = ''soc2''"
| "compliance_value PCI = ''pci''"
| "compliance_value GDPR = ''gdpr''"

fun skill_value :: "SkillLevel \<Rightarrow> string" where
  "skill_value BEGINNER = ''beginner''"
| "skill_value INTERMEDIATE = ''intermediate''"
| "skill_value ADVANCED = ''advanced''"
| "skill_value EXPERT = ''expert''"

text \<open>\<^verbatim>\<open>str.lower\<close> on ASCII text, and the whitespace that \<^verbatim>\<open>str.strip\<close> removes.\<close>

definition lower_char :: "char \<Rightarrow> char" where
  "lower_char ch =
     (case map_of (zip ''ABCDEFGHIJKLMNOPQRSTUVWXYZ'' ''abcdefghijklmnopqrstuvwxyz'') ch of
        Some l \<Rightarrow> l
      | None \<Rightarrow> ch)"

definition lower :: "string \<Rightarrow> string" where
  "lower s = map lower_char s"

definition is_space :: "char \<Rightarrow> bool" where
  "is_space ch =
     (ch \<in> set [CHR '' '', CHR 0x09, CHR 0x0A, CHR 0x0B, CHR 0x0C, CHR 0x0D,
                 CHR 0x1C, CHR 0x1D, CHR 0x1E, CHR 0x1F])"

definition strip :: "string \<Rightarrow> string" where
  "strip s = rev (dropWhile is_space (rev (dropWhile is_space s)))"

text \<open>
  \<^verbatim>\<open>max(xs, key=k)\<close>: the first element whose key is maximal; a \<^verbatim>\<open>ValueError\<close> on an
  empty list.
\<close>

fun max_from :: "('a \<Rightarrow> real) \<Rightarrow> 'a \<Rightarrow> 'a list \<Rightarrow> 'a" where
  "max_from k best [] = best"
| "max_from k best (x # xs) = max_from k (if k x > k best then x else best) xs"

definition py_max :: "('a \<Rightarrow> real) \<Rightarrow> 'a list \<Rightarrow> error + 'a" where
  "py_max k xs = (case xs of [] \<Rightarrow> Inl EmptySequenceError | x # rest \<Rightarrow> Inr (max_from k x rest))"

fun min_from :: "('a \<Rightarrow> real) \<Rightarrow> 'a \<Rightarrow> 'a list \<Rightarrow> 'a" where
  "min_from k best [] = best"
| "min_from k best (x # xs) = min_from k (if k x < k best then x else best) xs"

definition py_min :: "('a \<Rightarrow> real) \<Rightarrow> 'a list \<Rightarrow> error + 'a" where
  "py_min k xs = (case xs of [] \<Rightarrow> Inl EmptySequenceError | x # rest \<Rightarrow> Inr (min_from k x rest))"

text \<open>\<^verbatim>\<open>xs.index(v)\<close> for a value known to occur: the first position of \<open>v\<close>.\<close>

fun list_index :: "'a list \<Rightarrow> 'a \<Rightarrow> nat" where
  "list_index [] v = 0"
| "list_index (x # xs) v = (if x = v then 0 else Suc (list_index xs v))"

definition analyze_context :: "Constraints \<Rightarrow> string \<Rightarrow> Context" where
  "analyze_context c use_case' =
     (let concern =
            (if budget c \<le> 3 then ''cost''
             else if max_latency c \<le> 3 then ''performance''
             else if compliance_value (Constraints.compliance c) \<in> set [''hipaa'', ''pci'', ''gdpr'']
               then ''compliance''
             else if skill_value (team_skill c) \<in> set [''beginner'', ''intermediate'']
               then ''team_capability''
             else ''balanced'');
          use_case_lower = lower use_case';
          risk =
            (if list_ex (\<lambda>word. sublist word use_case_lower) [''startup'', ''mvp'', ''prototype'']
               then ''high''
             else if list_ex (\<lambda>word. sublist word use_case_lower)
                       [''enterprise'', ''production'', ''critical'']
               then ''low''
             else ''medium'')
      in \<lparr>primary_concern = concern, risk_tolerance = risk, decision_type = ''technical''\<rparr>)"

definition performance :: "OptionScore \<Rightarrow> real" where
  "performance s = (latency_score s + scalability_score s) / 2"

definition generate_insights ::
  "TechOption list \<Rightarrow> OptionScore list \<Rightarrow> TradeOff list \<Rightarrow> error + insight list" where
  "generate_insights opts scores' tradeoffs' =
     (case scores' of
        [] \<Rightarrow> Inl IndexError
      | leader # _ \<Rightarrow>
        (let top_score = weighted_score leader;
             bottom_score = weighted_score (last scores');
             score_gap = top_score - bottom_score;
             gap_insight =
               (if score_gap < 1 then
                  [Text ''All options are very close in overall scoring - decision factors beyond metrics may be important'']
                else if score_gap > 4 then
                  [Text (''Clear winner: '' @ option_name leader @ '' significantly outperforms other options'')]
                else []);
             high_impact_tradeoffs = filter (\<lambda>t. impact t = ''high'') tradeoffs';
             tradeoff_insight =
               (if high_impact_tradeoffs \<noteq> [] then
                  [CriticalTradeoffs (set (map dimension high_impact_tradeoffs))]
                else []);
             cost_leaders = take 2 (sorted_reverse cost_score scores');
             perf_leaders = take 2 (sorted_reverse performance scores');
             leader_insight =
               (if set (map option_name cost_leaders) \<noteq> set (map option_name perf_leaders) then
                  [Text ''Classic cost vs performance trade-off - no option excels at both'']
                else []);
             compliance_scores = map compliance_score scores'
         in case py_max (\<lambda>x. x) compliance_scores of
              Inl e \<Rightarrow> Inl e
            | Inr highest \<Rightarrow>
            (case py_min (\<lambda>x. x) compliance_scores of
              Inl e \<Rightarrow> Inl e
            | Inr lowest \<Rightarrow>
               Inr (gap_insight @ tradeoff_insight @ leader_insight @
                    (if highest - lowest > 3 then
                       [Text ''Significant compliance differences between options - regulatory requirements are decisive'']
                     else [])))))"

text \<open>
  The branch of \<^verbatim>\<open>_generate_recommendations\<close> chosen by the primary concern; a concern
  other than cost, performance and compliance adds nothing.
\<close>

definition context_recommendations :: "OptionScore list \<Rightarrow> Context \<Rightarrow> error + string list" where
  "context_recommendations scores' context =
     (if primary_concern context = ''cost'' then
        (case py_max cost_score scores' of
           Inl e \<Rightarrow> Inl e
         | Inr cost_leader \<Rightarrow>
             Inr ([''For cost optimization: Choose '' @ option_name cost_leader @ '' - best cost efficiency''] @
                  (if length scores' > 1 then
                     (let balanced_option =
                            (if scores' ! 0 \<noteq> cost_leader then scores' ! 1 else scores' ! 0)
                      in [''For balanced approach: Consider '' @ option_name balanced_option @
                            '' - good cost with better features''])
                   else [])))
      else if primary_concern context = ''performance'' then
        (let perf_scores = map performance scores'
         in case py_max (\<lambda>x. x) perf_scores of
              Inl e \<Rightarrow> Inl e
            | Inr best \<Rightarrow>
              (let perf_leader = scores' ! list_index perf_scores best;
                   for_performance =
                     [''For maximum performance: Choose '' @ option_name perf_leader @
                        '' - superior speed and scale'']
               in if length scores' > 1 then
                    (case py_max cost_score scores' of
                       Inl e \<Rightarrow> Inl e
                     | Inr cost_conscious \<Rightarrow>
                         Inr (for_performance @
                              (if cost_conscious \<noteq> perf_leader then
                                 [''For performance on budget: Consider '' @
                                    option_name cost_conscious @
                                    '' - acceptable performance, lower cost'']
                               else [])))
                  else Inr for_performance))
      else if primary_concern context = ''compliance'' then
        (case py_max compliance_score scores' of
           Inl e \<Rightarrow> Inl e
         | Inr compliance_leader \<Rightarrow>
             Inr [''For regulatory compliance: Choose '' @ option_name compliance_leader @
                    '' - meets all requirements''])
      else Inr [])"

definition risk_recommendations ::
  "TechOption list \<Rightarrow> OptionScore list \<Rightarrow> Context \<Rightarrow> string list" where
  "risk_recommendations opts scores' context =
     (if risk_tolerance context = ''low'' then
        (let established_options =
               filter (\<lambda>s. list_ex (\<lambda>opt. name opt = option_name s \<and>
                                          sublist ''enterprise'' (lower (description opt))) opts)
                 scores'
         in case established_options of
              [] \<Rightarrow> []
            | first # _ \<Rightarrow>
                [''For low-risk deployment: '' @ option_name first @ '' - proven enterprise solution''])
      else [])"

definition priorities_recommendation :: "OptionScore list \<Rightarrow> error + string" where
  "priorities_recommendation scores' =
     (case scores' of
        [] \<Rightarrow> Inl IndexError
      | leader # _ \<Rightarrow>
        (case py_max cost_score scores' of
           Inl e \<Rightarrow> Inl e
         | Inr cost_leader \<Rightarrow>
        (case py_max latency_score scores' of
           Inl e \<Rightarrow> Inl e
         | Inr latency_leader \<Rightarrow>
             Inr (''Choice depends on priorities: '' @ option_name leader @ '' for overall balance, '' @
                  option_name cost_leader @ '' for cost, '' @
                  option_name latency_leader @ '' for performance''))))"

definition generate_recommendations ::
  "TechOption list \<Rightarrow> OptionScore list \<Rightarrow> TradeOff list \<Rightarrow> Context \<Rightarrow> error + string list" where
  "generate_recommendations opts scores' tradeoffs' context =
     (case context_recommendations scores' context of
        Inl e \<Rightarrow> Inl e
      | Inr by_context \<Rightarrow>
        (case priorities_recommendation scores' of
           Inl e \<Rightarrow> Inl e
         | Inr by_priorities \<Rightarrow>
             Inr (by_context @ risk_recommendations opts scores' context @ [by_priorities])))"

definition score_risks :: "OptionScore \<Rightarrow> string list" where
  "score_risks s =
     (if cost_score s < 4 then [option_name s @ '': High cost risk - may exceed budget''] else []) @
     (if latency_score s < 4
        then [option_name s @ '': Performance risk - may not meet latency requirements''] else []) @
     (if scalability_score s < 4
        then [option_name s @ '': Scalability risk - may not handle growth''] else []) @
     (if compliance_score s < 6
        then [option_name s @ '': Compliance risk - may not meet regulatory requirements''] else []) @
     (if skill_score s < 5
        then [option_name s @ '': Team capability risk - may require additional training''] else [])"

definition identify_risks ::
  "TechOption list \<Rightarrow> OptionScore list \<Rightarrow> TradeOff list \<Rightarrow> string list" where
  "identify_risks opts scores' tradeoffs' =
     concat (map score_risks scores') @
     map (\<lambda>t. ''Choosing '' @ winner t @ '' over alternatives sacrifices '' @ dimension t @
               '' performance'')
       (filter (\<lambda>t. impact t = ''high'') tradeoffs')"

definition map_scenarios ::
  "TechOption list \<Rightarrow> OptionScore list \<Rightarrow> TradeOff list \<Rightarrow> error + (string \<times> string) list" where
  "map_scenarios opts scores' tradeoffs' =
     (case py_max cost_score scores' of
        Inl e \<Rightarrow> Inl e
      | Inr cost_leader \<Rightarrow>
     (let perf_scores = map performance scores'
      in case py_max (\<lambda>x. x) perf_scores of
        Inl e \<Rightarrow> Inl e
      | Inr best \<Rightarrow>
     (let perf_leader = scores' ! list_index perf_scores best
      in case py_max skill_score scores' of
        Inl e \<Rightarrow> Inl e
      | Inr skill_leader \<Rightarrow>
     (case py_max compliance_score scores' of
        Inl e \<Rightarrow> Inl e
      | Inr compliance_leader \<Rightarrow>
     (case py_max weighted_score scores' of
        Inl e \<Rightarrow> Inl e
      | Inr balanced_leader \<Rightarrow>
          Inr [(''tight_budget'', option_name cost_leader @ '' - most cost-effective option''),
               (''high_performance'', option_name perf_leader @ '' - best performance characteristics''),
               (''quick_deployment'', option_name skill_leader @ '' - matches current team skills''),
               (''enterprise_deployment'',
                  option_name compliance_leader @ '' - strongest compliance and governance''),
               (''startup_mvp'',
                  option_name balanced_leader @ '' - best overall balance for rapid iteration'')])))))"

definition generate_summary ::
  "TechOption list \<Rightarrow> OptionScore list \<Rightarrow> Context \<Rightarrow> error + segment list" where
  "generate_summary opts scores' context =
     (case scores' of
        [] \<Rightarrow> Inl IndexError
      | top_option # _ \<Rightarrow>
          Inr ([Str ''Analyzed '', IntVal (length opts),
                Str '' technical options for your use case. ''] @
               (if primary_concern context = ''cost'' then
                  [Str ''With cost as the primary concern, the analysis reveals significant trade-offs between price and capabilities. '']
                else if primary_concern context = ''performance'' then
                  [Str ''Performance requirements drive this decision, with clear winners in latency and scalability. '']
                else if primary_concern context = ''compliance'' then
                  [Str ''Regulatory compliance is the decisive factor, limiting viable options. '']
                else []) @
               [Str (option_name top_option @ '' leads in overall scoring (weighted score: ''),
                FloatVal (weighted_score top_option), Str ''), '',
                Str ''but each option has distinct advantages depending on your specific priorities and constraints. '',
                Str ''The decision should align with your risk tolerance and long-term technical strategy.'']))"

definition analyze ::
  "TechOption list \<Rightarrow> Constraints \<Rightarrow> OptionScore list \<Rightarrow> TradeOff list \<Rightarrow> string \<Rightarrow>
     error + KiroAnalysis" where
  "analyze opts c scores' tradeoffs' use_case' =
     (let context = analyze_context c use_case'
      in case generate_insights opts scores' tradeoffs' of
           Inl e \<Rightarrow> Inl e
         | Inr insights \<Rightarrow>
        (case generate_recommendations opts scores' tradeoffs' context of
           Inl e \<Rightarrow> Inl e
         | Inr recs \<Rightarrow>
        (let risks = identify_risks opts scores' tradeoffs'
         in case map_scenarios opts scores' tradeoffs' of
              Inl e \<Rightarrow> Inl e
            | Inr scenarios \<Rightarrow>
           (case generate_summary opts scores' context of
              Inl e \<Rightarrow> Inl e
            | Inr summary' \<Rightarrow>
                Inr \<lparr>summary = summary', key_insights = insights, recommendations = recs,
                     risk_factors = risks, best_for_scenarios = scenarios\<rparr>))))"

section \<open>Orchestrator (decision_engine.py)\<close>

definition compare :: "ComparisonRequest \<Rightarrow> error + ComparisonResult" where
  "compare request =
     (case score_options (options request) (constraints request) of
        Inl e \<Rightarrow> Inl e
      | Inr scores' \<Rightarrow>
     (case generate_tradeoffs (options request) scores' of
        Inl e \<Rightarrow> Inl e
      | Inr tradeoffs' \<Rightarrow>
     (case analyze (options request) (constraints request) scores' tradeoffs' (use_case request) of
        Inl e \<Rightarrow> Inl e
      | Inr analysis \<Rightarrow>
          Inr \<lparr>comparison_id = None, scores = scores', tradeoffs = tradeoffs',
               kiro_analysis = analysis, timestamp = None\<rparr>)))"

definition validate_request :: "ComparisonRequest \<Rightarrow> error + bool" where
  "validate_request request =
     (if length (options request) < 2 then
        Inl (ValueError ''At least 2 options are required for comparison'')
      else if strip (use_case request) = [] then
        Inl (ValueError ''Use case description is required'')
      else Inr True)"

section \<open>Persistence (db.py)\<close>

text \<open>
  The two tables as lists of rows, newest last. The JSON text of a request or a result is
  kept as the value it encodes. \<open>tables_created\<close> records whether \<^verbatim>\<open>init_db\<close> has run:
  a statement on a missing table makes sqlite3 raise. The values the environment
  supplies (the fresh UUID, the clock) are gathered in a record.
\<close>

record ComparisonRow =
  row_id :: string
  request_data :: ComparisonRequest
  result_data :: ComparisonResult
  row_use_case :: string
  row_timestamp :: string
  created_at :: string

record OptionRow =
  row_comparison_id :: string
  row_option_name :: string
  option_data :: TechOption
  score :: real

record Database =
  tables_created :: bool
  comparisons :: "ComparisonRow list"
  comparison_options :: "OptionRow list"

record Environment =
  uuid4 :: string
  now_isoformat :: string
  current_timestamp :: string

definition init_db :: "Database \<Rightarrow> Database" where
  "init_db db = db\<lparr>tables_created := True\<rparr>"

text \<open>
  The row of one option: its score is the weighted score of the first score of that
  name, or 0.0 when there is none.
\<close>

definition option_row :: "string \<Rightarrow> ComparisonResult \<Rightarrow> TechOption \<Rightarrow> OptionRow" where
  "option_row cid result opt =
     (let option_score = find (\<lambda>s. option_name s = name opt) (scores result);
          score' = (case option_score of Some s \<Rightarrow> weighted_score s | None \<Rightarrow> 0)
      in \<lparr>row_comparison_id = cid, row_option_name = name opt, option_data = opt,
          score = score'\<rparr>)"

text \<open>
  \<^verbatim>\<open>store_comparison\<close>: an exception rolls the transaction back, so the database is
  unchanged, and is raised again.
\<close>

definition store_comparison ::
  "Database \<Rightarrow> Environment \<Rightarrow> ComparisonRequest \<Rightarrow> ComparisonResult \<Rightarrow>
     (error + string) \<times> Database" where
  "store_comparison db env request result =
     (let cid = uuid4 env; timestamp' = now_isoformat env
      in if \<not> tables_created db then
           (Inl (DatabaseError ''no such table: comparisons''), db)
         else if cid \<in> set (map row_id (comparisons db)) then
           (Inl (DatabaseError ''UNIQUE constraint failed: comparisons.id''), db)
         else
           (Inr cid,
            db\<lparr>comparisons := comparisons db @
                   [\<lparr>row_id = cid, request_data = request, result_data = result,
                     row_use_case = use_case request, row_timestamp = timestamp',
                     created_at = current_timestamp env\<rparr>],
               comparison_options := comparison_options db @
                   map (option_row cid result) (options request)\<rparr>))"

definition get_comparison :: "Database \<Rightarrow> string \<Rightarrow> error + ComparisonRow option" where
  "get_comparison db cid =
     (if \<not> tables_created db then Inl (DatabaseError ''no such table: comparisons'')
      else Inr (find (\<lambda>row. row_id row = cid) (comparisons db)))"

section \<open>Request handlers (main.py)\<close>

text \<open>
  Each handler runs its body inside \<^verbatim>\<open>try\<close> and turns every \<^verbatim>\<open>Exception\<close> raised there
  into \<^verbatim>\<open>HTTPException(status_code=500, detail=str(e))\<close>. The text \<^verbatim>\<open>str(e)\<close> of an
  exception is given by the parameter \<open>str_of\<close>.
\<close>

definition compare_options_handler ::
  "(error \<Rightarrow> string) \<Rightarrow> Environment \<Rightarrow> Database \<Rightarrow> ComparisonRequest \<Rightarrow>
     (error + ComparisonResult) \<times> Database" where
  "compare_options_handler str_of env db request =
     (case compare request of
        Inl e \<Rightarrow> (Inl (HTTPException 500 (str_of e)), db)
      | Inr result \<Rightarrow>
          (case store_comparison db env request result of
             (Inl e, db') \<Rightarrow> (Inl (HTTPException 500 (str_of e)), db')
           | (Inr cid, db') \<Rightarrow> (Inr (result\<lparr>comparison_id := Some cid\<rparr>), db')))"

definition get_comparison_body :: "Database \<Rightarrow> string \<Rightarrow> error + ComparisonRow" where
  "get_comparison_body db cid =
     (case get_comparison db cid of
        Inl e \<Rightarrow> Inl e
      | Inr None \<Rightarrow> Inl (HTTPException 404 ''Comparison not found'')
      | Inr (Some comparison) \<Rightarrow> Inr comparison)"

definition get_comparison_handler ::
  "(error \<Rightarrow> string) \<Rightarrow> Database \<Rightarrow> string \<Rightarrow> error + ComparisonRow" where
  "get_comparison_handler str_of db cid =
     (case get_comparison_body db cid of
        Inl e \<Rightarrow> Inl (HTTPException 500 (str_of e))
      | Inr comparison \<Rightarrow> Inr comparison)"

text \<open>
  The score of a dimension, by the dimension's name: the field
  \<^verbatim>\<open><dimension>_score\<close> of an \<^verbatim>\<open>OptionScore\<close>.
\<close>

definition dimension_score :: "string \<Rightarrow> OptionScore \<Rightarrow> real" where
  "dimension_score d s =
     (if d = ''cost'' then cost_score s
      else if d = ''latency'' then latency_score s
      else if d = ''scalability'' then scalability_score s
      else if d = ''compliance'' then compliance_score s
      else if d = ''cloud'' then cloud_score s
      else skill_score s)"

section \<open>The documented input scale\<close>

text \<open>
  models.py documents the numeric attributes of an option and of the constraints as
  lying on a scale from 1 to 10.
\<close>

definition on_scale :: "real \<Rightarrow> bool" where
  "on_scale x = (1 \<le> x \<and> x \<le> 10)"

definition option_on_scale :: "TechOption \<Rightarrow> bool" where
  "option_on_scale opt = (on_scale (cost opt) \<and> on_scale (latency opt) \<and> on_scale (scalability opt))"

definition constraints_on_scale :: "Constraints \<Rightarrow> bool" where
  "constraints_on_scale c =
     (on_scale (budget c) \<and> on_scale (max_latency c) \<and> on_scale (required_scale c))"

section \<open>Example inputs\<close>

definition example_option :: TechOption where
  "example_option =
     \<lparr>name = ''Postgres'', description = ''Relational database'',
      cost = 2, latency = 2, scalability = 9,
      TechOption.compliance = SOC2, cloud = AWS, team_skill_required = ADVANCED,
      pros = [], cons = []\<rparr>"

definition example_constraints :: Constraints where
  "example_constraints =
     \<lparr>budget = 8, max_latency = 8, required_scale = 5,
      Constraints.compliance = BASIC, preferred_cloud = None, team_skill = INTERMEDIATE\<rparr>"

definition rounding_option :: TechOption where
  "rounding_option =
     \<lparr>name = ''Cache'', description = ''In-memory cache'',
      cost = 1, latency = 4, scalability = 1,
      TechOption.compliance = BASIC, cloud = GCP, team_skill_required = BEGINNER,
      pros = [], cons = []\<rparr>"

definition rounding_constraints :: Constraints where
  "rounding_constraints =
     \<lparr>budget = 1, max_latency = 3, required_scale = 7,
      Constraints.compliance = BASIC, preferred_cloud = None, team_skill = INTERMEDIATE\<rparr>"


definition pair_constraints :: Constraints where
  "pair_constraints =
     \<lparr>budget = 4, max_latency = 5, required_scale = 5,
      Constraints.compliance = BASIC, preferred_cloud = Some AWS, team_skill = INTERMEDIATE\<rparr>"

definition option_A :: TechOption where
  "option_A =
     \<lparr>name = ''A'', description = ''Managed service'',
      cost = 2, latency = 8, scalability = 4,
      TechOption.compliance = SOC2, cloud = AWS, team_skill_required = BEGINNER,
      pros = [], cons = []\<rparr>"

definition option_B :: TechOption where
  "option_B =
     \<lparr>name = ''B'', description = ''Self-hosted cluster'',
      cost = 8, latency = 2, scalability = 5,
      TechOption.compliance = SOC2, cloud = GCP, team_skill_required = ADVANCED,
      pros = [], cons = []\<rparr>"

definition score_A :: OptionScore where
  "score_A =
     \<lparr>option_name = ''A'', total_score = 89 / 10, cost_score = 10, latency_score = 7,
      scalability_score = 64 / 10, compliance_score = 10, cloud_score = 10, skill_score = 10,
      weighted_score = 868 / 100\<rparr>"

definition score_B :: OptionScore where
  "score_B =
     \<lparr>option_name = ''B'', total_score = 767 / 100, cost_score = 5, latency_score = 10,
      scalability_score = 8, compliance_score = 10, cloud_score = 6, skill_score = 7,
      weighted_score = 765 / 100\<rparr>"

definition expected_tradeoffs :: "TradeOff list" where
  "expected_tradeoffs =
     [\<lparr>option_a = ''B'', option_b = ''A'', dimension = ''cost'', winner = ''A'',
       explanation = ''A is more cost-effective than B'', impact = ''high''\<rparr>,
      \<lparr>option_a = ''B'', option_b = ''A'', dimension = ''latency'', winner = ''B'',
       explanation = ''B offers better latency performance than A'', impact = ''medium''\<rparr>,
      \<lparr>option_a = ''B'', option_b = ''A'', dimension = ''scalability'', winner = ''B'',
       explanation = ''B scales better than A'', impact = ''low''\<rparr>,
      \<lparr>option_a = ''B'', option_b = ''A'', dimension = ''cloud'', winner = ''A'',
       explanation = ''A better aligns with cloud preferences than B'', impact = ''high''\<rparr>,
      \<lparr>option_a = ''B'', option_b = ''A'', dimension = ''skill'', winner = ''A'',
       explanation = ''A better matches team skill level than B'', impact = ''medium''\<rparr>]"

definition pair_request :: ComparisonRequest where
  "pair_request =
     \<lparr>options = [option_B, option_A], constraints = pair_constraints,
      use_case = ''Database for a web app'', request_description = None\<rparr>"

definition pair_analysis :: KiroAnalysis where
  "pair_analysis =
     \<lparr>summary =
        [Str ''Analyzed '', IntVal 2, Str '' technical options for your use case. '',
         Str ''A leads in overall scoring (weighted score: '', FloatVal (868 / 100), Str ''), '',
         Str ''but each option has distinct advantages depending on your specific priorities and constraints. '',
         Str ''The decision should align with your risk tolerance and long-term technical strategy.''],
      key_insights = [CriticalTradeoffs {''cost'', ''cloud''}],
      recommendations =
        [''Choice depends on priorities: A for overall balance, A for cost, B for performance''],
      risk_factors =
        [''Choosing A over alternatives sacrifices cost performance'',
         ''Choosing A over alternatives sacrifices cloud performance''],
      best_for_scenarios =
        [(''tight_budget'', ''A - most cost-effective option''),
         (''high_performance'', ''B - best performance characteristics''),
         (''quick_deployment'', ''A - matches current team skills''),
         (''enterprise_deployment'', ''A - strongest compliance and governance''),
         (''startup_mvp'', ''A - best overall balance for rapid iteration'')]\<rparr>"

definition single_request :: ComparisonRequest where
  "single_request =
     \<lparr>options = [example_option], constraints = example_constraints,
      use_case = ''Database for a web app'', request_description = None\<rparr>"

definition blank_request :: ComparisonRequest where
  "blank_request =
     \<lparr>options = [option_B, option_A], constraints = pair_constraints,
      use_case = ''   '', request_description = None\<rparr>"

definition empty_db :: Database where
  "empty_db = \<lparr>tables_created = True, comparisons = [], comparison_options = []\<rparr>"

definition example_env :: Environment where
  "example_env =
     \<lparr>uuid4 = ''7f9c24e8-3b12-4fef-91e0-5a6b7c8d9e0f'',
      now_isoformat = ''2024-01-01T00:00:00'',
      current_timestamp = ''2024-01-01 00:00:00''\<rparr>"

definition single_score :: OptionScore where
  "single_score =
     \<lparr>option_name = ''Postgres'', total_score = 897 / 100, cost_score = 10,
      latency_score = 10, scalability_score = 88 / 10, compliance_score = 10,
      cloud_score = 8, skill_score = 7, weighted_score = 926 / 100\<rparr>"

definition single_analysis :: KiroAnalysis where
  "single_analysis =
     \<lparr>summary =
        [Str ''Analyzed '', IntVal 1, Str '' technical options for your use case. '',
         Str ''Postgres leads in overall scoring (weighted score: '', FloatVal (926 / 100),
         Str ''), '',
         Str ''but each option has distinct advantages depending on your specific priorities and constraints. '',
         Str ''The decision should align with your risk tolerance and long-term technical strategy.''],
      key_insights =
        [Text ''All options are very close in overall scoring - decision factors beyond metrics may be important''],
      recommendations =
        [''Choice depends on priorities: Postgres for overall balance, Postgres for cost, Postgres for performance''],
      risk_factors = [],
      best_for_scenarios =
        [(''tight_budget'', ''Postgres - most cost-effective option''),
         (''high_performance'', ''Postgres - best performance characteristics''),
         (''quick_deployment'', ''Postgres - matches current team skills''),
         (''enterprise_deployment'', ''Postgres - strongest compliance and governance''),
         (''startup_mvp'', ''Postgres - best overall balance for rapid iteration'')]\<rparr>"

definition single_result :: ComparisonResult where
  "single_result =
     \<lparr>comparison_id = None, scores = [single_score], tradeoffs = [],
      kiro_analysis = single_analysis, timestamp = None\<rparr>"

definition pair_result :: ComparisonResult where
  "pair_result =
     \<lparr>comparison_id = None, scores = [score_A, score_B], tradeoffs = expected_tradeoffs,
      kiro_analysis = pair_analysis, timestamp = None\<rparr>"

definition no_option_request :: ComparisonRequest where
  "no_option_request =
     \<lparr>options = [], constraints = example_constraints,
      use_case = ''Database for a web app'', request_description = None\<rparr>"

definition rounding_result :: OptionScore where
  "rounding_result =
     \<lparr>option_name = ''Cache'', total_score = 791 / 100, cost_score = 10,
      latency_score = 833 / 100, scalability_score = 114 / 100, compliance_score = 10,
      cloud_score = 8, skill_score = 10, weighted_score = 77 / 10\<rparr>"

section \<open>Worked examples and properties of the scoring engine\<close>

subsection \<open>Helper facts\<close>

lemma weight_simps:
  "weight ''cost'' = 1 / 4" "weight ''latency'' = 1 / 5" "weight ''scalability'' = 1 / 5"
  "weight ''compliance'' = 3 / 20" "weight ''cloud'' = 1 / 10" "weight ''skill'' = 1 / 10"
  by (simp_all add: weight_def weights_def)

lemma round2_of_int: "round2 (of_int n) = of_int n"
proof -
  have "(of_int n :: real) * 100 = of_int (n * 100)" by simp
  then have "\<lfloor>(of_int n :: real) * 100\<rfloor> = n * 100" by (metis floor_of_int)
  then show ?thesis by (simp add: round2_def Let_def)
qed

lemma round2_bounds:
  assumes "0 \<le> x" "x \<le> 10"
  shows "0 \<le> round2 x \<and> round2 x \<le> 10"
proof -
  define f where "f = \<lfloor>x * 100\<rfloor>"
  define d where "d = x * 100 - of_int f"
  define k where
    "k = (if d < 1 / 2 then f else if 1 / 2 < d then f + 1 else if even f then f else f + 1)"
  have f0: "0 \<le> f" using assms by (simp add: f_def)
  have f1: "f \<le> 1000" using assms by (simp add: f_def floor_le_iff)
  have d0: "d = 0" if "f = 1000"
  proof -
    from that have "1000 \<le> x * 100" unfolding f_def by linarith
    with assms that show "d = 0" by (simp add: d_def)
  qed
  have r: "round2 x = of_int k / 100"
    by (simp add: round2_def Let_def f_def d_def k_def)
  have "0 \<le> k" using f0 by (simp add: k_def)
  moreover have "k \<le> 1000"
  proof (cases "f = 1000")
    case True
    with d0 show ?thesis by (simp add: k_def)
  next
    case False
    with f1 show ?thesis by (simp add: k_def)
  qed
  ultimately show ?thesis by (simp add: r)
qed

lemma score_skill_int: "\<exists>n. score_skill r t = of_int n"
  by (auto simp: score_skill_def Let_def intro: exI[of _ 10])

lemma score_each_iff:
  "score_each opts c = Inr score_list \<longleftrightarrow>
     list_all2 (\<lambda>opt s. score_single_option opt c = Inr s) opts score_list"
proof (induction opts arbitrary: score_list)
  case Nil
  then show ?case by auto
next
  case (Cons opt rest)
  show ?case
  proof (cases score_list)
    case Nil
    then show ?thesis by (auto split: sum.splits)
  next
    case (Cons s ss)
    with Cons.IH[of ss] show ?thesis by (auto split: sum.splits)
  qed
qed

lemma score_each_total:
  "(\<forall>opt \<in> set opts. \<exists>s. score_single_option opt c = Inr s) \<Longrightarrow>
     \<exists>score_list. score_each opts c = Inr score_list"
  by (induction opts) (auto split: sum.splits)


lemma sorted_reverse_set: "set (sorted_reverse k xs) = set xs"
  by (simp add: sorted_reverse_def)




lemma score_options_elems:
  "score_options opts c = Inr score_list \<Longrightarrow> s \<in> set score_list \<Longrightarrow>
     \<exists>opt \<in> set opts. score_single_option opt c = Inr s"
proof -
  assume a: "score_options opts c = Inr score_list" and m: "s \<in> set score_list"
  from a obtain unsorted where u: "score_each opts c = Inr unsorted"
    and sc: "score_list = sorted_reverse weighted_score unsorted"
    by (auto simp: score_options_def split: sum.splits)
  from m sc have "s \<in> set unsorted" by (simp add: sorted_reverse_set)
  moreover from u have "list_all2 (\<lambda>opt s. score_single_option opt c = Inr s) opts unsorted"
    by (simp add: score_each_iff)
  ultimately show ?thesis
    by (metis (mono_tags, lifting) list_all2_conv_all_nth in_set_conv_nth nth_mem)
qed

lemma penalty_score_bounds:
  fixes p :: real
  assumes "0 \<le> p"
  shows "0 \<le> max 0 (m - p * k) \<and> (0 \<le> k \<longrightarrow> 0 \<le> m \<longrightarrow> max 0 (m - p * k) \<le> m)"
proof -
  have "0 \<le> k \<Longrightarrow> 0 \<le> p * k" using assms by simp
  then show ?thesis by auto
qed

lemma score_cost_bounds:
  assumes "0 < b"
  shows "\<exists>v. score_cost x b = Inr v \<and> 0 \<le> v \<and> v \<le> 10"
proof (cases "b \<ge> x")
  case True
  then show ?thesis by (simp add: score_cost_def)
next
  case False
  with assms have "0 \<le> (x - b) / b" by simp
  from penalty_score_bounds[OF this, of 10 5] False assms show ?thesis
    by (simp add: score_cost_def Let_def)
qed

lemma score_latency_bounds:
  assumes "0 < b"
  shows "\<exists>v. score_latency x b = Inr v \<and> 0 \<le> v \<and> v \<le> 10"
proof (cases "x \<le> b")
  case True
  then show ?thesis by (simp add: score_latency_def)
next
  case False
  with assms have "0 \<le> (x - b) / b" by simp
  from penalty_score_bounds[OF this, of 10 5] False assms show ?thesis
    by (simp add: score_latency_def Let_def)
qed

lemma score_scalability_bounds:
  assumes "0 < r"
  shows "\<exists>v. score_scalability x r = Inr v \<and> 0 \<le> v \<and> v \<le> 10"
proof (cases "x \<ge> r")
  case True
  with assms have "0 \<le> (x - r) / r" by simp
  then have "0 \<le> min 2 ((x - r) / r)" by simp
  then have "0 \<le> min 10 (8 + min 2 ((x - r) / r)) \<and> min 10 (8 + min 2 ((x - r) / r)) \<le> 10"
    by linarith
  with True assms show ?thesis
    by (simp add: score_scalability_def Let_def)
next
  case False
  with assms have "0 \<le> (r - x) / r" by simp
  from penalty_score_bounds[OF this, of 8 8] have
    "0 \<le> max 0 (8 - (r - x) / r * 8) \<and> max 0 (8 - (r - x) / r * 8) \<le> 10" by simp
  with False assms show ?thesis
    by (simp add: score_scalability_def Let_def)
qed

lemma score_compliance_bounds: "0 \<le> score_compliance a b \<and> score_compliance a b \<le> 10"
  by (cases a; cases b; simp add: score_compliance_def Let_def)

lemma score_cloud_bounds: "0 \<le> score_cloud a p \<and> score_cloud a p \<le> 10"
  by (simp add: score_cloud_def split: option.splits)

lemma score_skill_bounds: "0 \<le> score_skill a b \<and> score_skill a b \<le> 10"
  by (cases a; cases b; simp add: score_skill_def Let_def)

lemma score_single_option_bounds:
  assumes "option_on_scale opt" "constraints_on_scale c"
  shows "\<exists>s. score_single_option opt c = Inr s \<and>
           0 \<le> cost_score s \<and> cost_score s \<le> 10 \<and>
           0 \<le> latency_score s \<and> latency_score s \<le> 10 \<and>
           0 \<le> scalability_score s \<and> scalability_score s \<le> 10 \<and>
           0 \<le> compliance_score s \<and> compliance_score s \<le> 10 \<and>
           0 \<le> cloud_score s \<and> cloud_score s \<le> 10 \<and>
           0 \<le> skill_score s \<and> skill_score s \<le> 10"
proof -
  from assms(2) have pos: "0 < budget c" "0 < max_latency c" "0 < required_scale c"
    by (simp_all add: constraints_on_scale_def on_scale_def)
  obtain cs where cs: "score_cost (cost opt) (budget c) = Inr cs" "0 \<le> cs" "cs \<le> 10"
    using score_cost_bounds[OF pos(1)] by blast
  obtain ls where ls: "score_latency (latency opt) (max_latency c) = Inr ls" "0 \<le> ls" "ls \<le> 10"
    using score_latency_bounds[OF pos(2)] by blast
  obtain ss where ss: "score_scalability (scalability opt) (required_scale c) = Inr ss"
      "0 \<le> ss" "ss \<le> 10"
    using score_scalability_bounds[OF pos(3)] by blast
  show ?thesis
    using cs ls ss score_compliance_bounds score_cloud_bounds score_skill_bounds
    by (simp add: score_single_option_def Let_def round2_bounds)
qed

lemma weights_convex: "sum_list (map snd weights) = 1 \<and> (\<forall>w \<in> set (map snd weights). 0 \<le> w)"
  by (simp add: weights_def)

lemma score_single_option_weighted:
  assumes "score_single_option opt c = Inr s"
  shows "\<exists>cs ls ss. option_name s = name opt \<and>
           score_cost (cost opt) (budget c) = Inr cs \<and>
           score_latency (latency opt) (max_latency c) = Inr ls \<and>
           score_scalability (scalability opt) (required_scale c) = Inr ss \<and>
           weighted_score s =
             round2 (cs * 0.25 + ls * 0.20 + ss * 0.20 +
                     score_compliance (TechOption.compliance opt) (Constraints.compliance c) * 0.15 +
                     score_cloud (cloud opt) (preferred_cloud c) * 0.10 +
                     score_skill (team_skill_required opt) (team_skill c) * 0.10)"
  using assms
  by (auto simp: score_single_option_def Let_def weighted_sum_def weight_simps split: sum.splits)

lemma rounding_score:
  "score_single_option rounding_option rounding_constraints =
     Inr \<lparr>option_name = ''Cache'', total_score = 791 / 100, cost_score = 10,
          latency_score = 833 / 100, scalability_score = 114 / 100, compliance_score = 10,
          cloud_score = 8, skill_score = 10, weighted_score = 77 / 10\<rparr>"
  by (simp add: score_single_option_def rounding_option_def rounding_constraints_def
      score_cost_def score_latency_def score_scalability_def score_compliance_def
      score_cloud_def score_skill_def weighted_sum_def weight_simps round2_def Let_def)

lemma rounding_alt: "round2 (weighted_sum 10 (833 / 100) (114 / 100) 10 8 10) = 769 / 100"
  by (simp add: weighted_sum_def weight_simps round2_def Let_def)

lemma example_score:
  "score_single_option example_option example_constraints =
     Inr \<lparr>option_name = ''Postgres'', total_score = 897 / 100, cost_score = 10,
          latency_score = 10, scalability_score = 88 / 10, compliance_score = 10,
          cloud_score = 8, skill_score = 7, weighted_score = 926 / 100\<rparr>"
  by (simp add: score_single_option_def example_option_def example_constraints_def
      score_cost_def score_latency_def score_scalability_def score_compliance_def
      score_cloud_def score_skill_def weighted_sum_def weight_simps round2_def Let_def)

subsection \<open>The worked example of the specification\<close>

text \<open>
  C2, as the claim states it, fails: scalability 9 against a required scale of 5 does
  not score 9.6.
\<close>

theorem C2_scalability_not_9_6:
  "score_scalability 9 5 \<noteq> Inr (96 / 10)"
  by (simp add: score_scalability_def Let_def)

text \<open>
  C2 (amended): cost 2 against budget 8 scores 10, latency 2 against a maximal latency
  of 8 scores 10, and scalability 9 against a required scale of 5 scores
  min(10, 8 + min(2, 4/5)) = 8.8; rounding to two decimals keeps these values.
\<close>

theorem C2_example_scores:
  "score_cost 2 8 = Inr 10 \<and> score_latency 2 8 = Inr 10 \<and>
   score_scalability 9 5 = Inr (min 10 (8 + min 2 (4 / 5))) \<and>
   score_scalability 9 5 = Inr (88 / 10) \<and>
   round2 10 = 10 \<and> round2 (88 / 10) = 88 / 10"
  by (simp add: score_cost_def score_latency_def score_scalability_def round2_def Let_def)

subsection \<open>The skill dimension\<close>

text \<open>
  C7: with the ranks beginner 1, intermediate 2, advanced 3, expert 4, the skill score
  is 10 when the team's rank is at least the rank the option requires, and
  max(0, 10 - 3 * (required rank - team rank)) otherwise; the skill score reported for
  an option is this value for the option's required skill and the constraints' team
  skill.
\<close>

theorem C7_skill_score:
  "skill_levels BEGINNER = 1 \<and> skill_levels INTERMEDIATE = 2 \<and>
   skill_levels ADVANCED = 3 \<and> skill_levels EXPERT = 4 \<and>
   score_skill required team =
     (if skill_levels team \<ge> skill_levels required then 10
      else max 0 (10 - 3 * (real_of_int (skill_levels required) - real_of_int (skill_levels team)))) \<and>
   (score_single_option opt c = Inr s \<longrightarrow>
      skill_score s =
        (if skill_levels (team_skill c) \<ge> skill_levels (team_skill_required opt) then 10
         else max 0 (10 - 3 * (real_of_int (skill_levels (team_skill_required opt)) -
                               real_of_int (skill_levels (team_skill c))))))"
proof -
  have formula: "score_skill r t =
     (if skill_levels t \<ge> skill_levels r then 10
      else max 0 (10 - 3 * (real_of_int (skill_levels r) - real_of_int (skill_levels t))))"
    for r t
    by (cases r; cases t; simp add: score_skill_def Let_def)
  have reported: "skill_score s = score_skill (team_skill_required opt) (team_skill c)"
    if "score_single_option opt c = Inr s"
    using that score_skill_int[of "team_skill_required opt" "team_skill c"]
    by (auto simp: score_single_option_def Let_def round2_of_int split: sum.splits)
  show ?thesis using formula reported by simp
qed

theorem C7_skill_score_witness:
  "(case score_single_option example_option example_constraints of
      Inl e \<Rightarrow> False
    | Inr s \<Rightarrow> skill_score s = 7)"
  using C7_skill_score [of ADVANCED INTERMEDIATE example_option example_constraints]
  unfolding example_score
  by (simp add: example_option_def example_constraints_def)

subsection \<open>The weighted score\<close>

text \<open>
  C3: the weights are non-negative and sum to 1, and every score that
  \<open>score_options\<close> returns belongs to an option of the input whose weighted score is
  the combination 0.25, 0.20, 0.20, 0.15, 0.10, 0.10 of the six unrounded dimension
  scores, rounded to two decimals.
\<close>

theorem C3_weighted_score:
  "sum_list (map snd weights) = 1 \<and> (\<forall>w \<in> set (map snd weights). 0 \<le> w) \<and>
   (score_options opts c = Inr score_list \<longrightarrow>
      (\<forall>s \<in> set score_list. \<exists>opt \<in> set opts. \<exists>cs ls ss.
         option_name s = name opt \<and>
         score_cost (cost opt) (budget c) = Inr cs \<and>
         score_latency (latency opt) (max_latency c) = Inr ls \<and>
         score_scalability (scalability opt) (required_scale c) = Inr ss \<and>
         weighted_score s =
           round2 (cs * 0.25 + ls * 0.20 + ss * 0.20 +
                   score_compliance (TechOption.compliance opt) (Constraints.compliance c) * 0.15 +
                   score_cloud (cloud opt) (preferred_cloud c) * 0.10 +
                   score_skill (team_skill_required opt) (team_skill c) * 0.10)))"
proof -
  have "\<exists>opt \<in> set opts. \<exists>cs ls ss.
         option_name s = name opt \<and>
         score_cost (cost opt) (budget c) = Inr cs \<and>
         score_latency (latency opt) (max_latency c) = Inr ls \<and>
         score_scalability (scalability opt) (required_scale c) = Inr ss \<and>
         weighted_score s =
           round2 (cs * 0.25 + ls * 0.20 + ss * 0.20 +
                   score_compliance (TechOption.compliance opt) (Constraints.compliance c) * 0.15 +
                   score_cloud (cloud opt) (preferred_cloud c) * 0.10 +
                   score_skill (team_skill_required opt) (team_skill c) * 0.10)"
    if so: "score_options opts c = Inr score_list" and m: "s \<in> set score_list" for s
  proof -
    from score_options_elems[OF so m] obtain opt where
      o: "opt \<in> set opts" and e: "score_single_option opt c = Inr s" by blast
    from score_single_option_weighted[OF e] o show ?thesis by (rule_tac bexI)
  qed
  with weights_convex show ?thesis by blast
qed

text \<open>
  At \<open>rounding_option\<close> the reported weighted score is 7.70, while the same
  combination of the six reported (rounded) dimension scores would round to 7.69.
\<close>

theorem C3_weighted_score_witness:
  "score_options [rounding_option] rounding_constraints = Inr [rounding_result] \<and>
   (\<exists>opt cs ls ss. opt \<in> set [rounding_option] \<and>
      option_name rounding_result = name opt \<and>
      score_cost (cost opt) (budget rounding_constraints) = Inr cs \<and>
      score_latency (latency opt) (max_latency rounding_constraints) = Inr ls \<and>
      score_scalability (scalability opt) (required_scale rounding_constraints) = Inr ss \<and>
      weighted_score rounding_result =
        round2 (cs * 0.25 + ls * 0.20 + ss * 0.20 +
                score_compliance (TechOption.compliance opt)
                  (Constraints.compliance rounding_constraints) * 0.15 +
                score_cloud (cloud opt) (preferred_cloud rounding_constraints) * 0.10 +
                score_skill (team_skill_required opt) (team_skill rounding_constraints) * 0.10)) \<and>
   weighted_score rounding_result = 77 / 10 \<and>
   round2 (weighted_sum (cost_score rounding_result) (latency_score rounding_result)
             (scalability_score rounding_result) (compliance_score rounding_result)
             (cloud_score rounding_result) (skill_score rounding_result)) = 769 / 100"
proof -
  have ev: "score_options [rounding_option] rounding_constraints = Inr [rounding_result]"
    by (simp add: score_options_def rounding_score sorted_reverse_def rounding_result_def)
  have m: "rounding_result \<in> set [rounding_result]" by simp
  note inst = C3_weighted_score [of "[rounding_option]" rounding_constraints "[rounding_result]",
      THEN conjunct2, THEN conjunct2, THEN mp, OF ev, THEN bspec, OF m]
  from inst have a: "\<exists>opt cs ls ss. opt \<in> set [rounding_option] \<and>
      option_name rounding_result = name opt \<and>
      score_cost (cost opt) (budget rounding_constraints) = Inr cs \<and>
      score_latency (latency opt) (max_latency rounding_constraints) = Inr ls \<and>
      score_scalability (scalability opt) (required_scale rounding_constraints) = Inr ss \<and>
      weighted_score rounding_result =
        round2 (cs * 0.25 + ls * 0.20 + ss * 0.20 +
                score_compliance (TechOption.compliance opt)
                  (Constraints.compliance rounding_constraints) * 0.15 +
                score_cloud (cloud opt) (preferred_cloud rounding_constraints) * 0.10 +
                score_skill (team_skill_required opt) (team_skill rounding_constraints) * 0.10)"
    unfolding Bex_def by (elim exE conjE) (intro exI conjI; assumption)
  have w: "weighted_score rounding_result = 77 / 10" by (simp add: rounding_result_def)
  have alt: "round2 (weighted_sum (cost_score rounding_result) (latency_score rounding_result)
             (scalability_score rounding_result) (compliance_score rounding_result)
             (cloud_score rounding_result) (skill_score rounding_result)) = 769 / 100"
    using rounding_alt by (simp add: rounding_result_def)
  show ?thesis by (intro conjI) (rule ev, rule a, rule w, rule alt)
qed

subsection \<open>The range of the dimension scores\<close>

text \<open>
  C4: when the numeric attributes of the constraints and of every option lie on the
  scale from 1 to 10, \<open>score_options\<close> returns one score per option, and each of the
  six dimension scores of each lies in the closed interval from 0 to 10.
\<close>

theorem C4_dimension_scores_in_range:
  assumes "constraints_on_scale c" "\<forall>opt \<in> set opts. option_on_scale opt"
  shows "\<exists>score_list. score_options opts c = Inr score_list \<and> length score_list = length opts \<and>
           (\<forall>s \<in> set score_list.
              0 \<le> cost_score s \<and> cost_score s \<le> 10 \<and>
              0 \<le> latency_score s \<and> latency_score s \<le> 10 \<and>
              0 \<le> scalability_score s \<and> scalability_score s \<le> 10 \<and>
              0 \<le> compliance_score s \<and> compliance_score s \<le> 10 \<and>
              0 \<le> cloud_score s \<and> cloud_score s \<le> 10 \<and>
              0 \<le> skill_score s \<and> skill_score s \<le> 10)"
proof -
  from assms have "\<forall>opt \<in> set opts. \<exists>s. score_single_option opt c = Inr s"
    using score_single_option_bounds by blast
  then obtain unsorted where u: "score_each opts c = Inr unsorted"
    using score_each_total by blast
  define score_list where "score_list = sorted_reverse weighted_score unsorted"
  have so: "score_options opts c = Inr score_list"
    by (simp add: score_options_def u score_list_def)
  have len: "length score_list = length opts"
    using u by (simp add: score_list_def sorted_reverse_def score_each_iff list_all2_lengthD)
  have "0 \<le> cost_score s \<and> cost_score s \<le> 10 \<and>
        0 \<le> latency_score s \<and> latency_score s \<le> 10 \<and>
        0 \<le> scalability_score s \<and> scalability_score s \<le> 10 \<and>
        0 \<le> compliance_score s \<and> compliance_score s \<le> 10 \<and>
        0 \<le> cloud_score s \<and> cloud_score s \<le> 10 \<and>
        0 \<le> skill_score s \<and> skill_score s \<le> 10" if "s \<in> set score_list" for s
  proof -
    from score_options_elems[OF so that] obtain opt where
      o: "opt \<in> set opts" "score_single_option opt c = Inr s" by blast
    with assms score_single_option_bounds[of opt c] show ?thesis by auto
  qed
  with so len show ?thesis by blast
qed

theorem C4_dimension_scores_in_range_witness:
  "constraints_on_scale example_constraints \<and> option_on_scale example_option \<and>
   (\<exists>score_list. score_options [example_option] example_constraints = Inr score_list \<and>
      length score_list = length [example_option] \<and>
      (\<forall>s \<in> set score_list.
          0 \<le> cost_score s \<and> cost_score s \<le> 10 \<and>
          0 \<le> latency_score s \<and> latency_score s \<le> 10 \<and>
          0 \<le> scalability_score s \<and> scalability_score s \<le> 10 \<and>
          0 \<le> compliance_score s \<and> compliance_score s \<le> 10 \<and>
          0 \<le> cloud_score s \<and> cloud_score s \<le> 10 \<and>
          0 \<le> skill_score s \<and> skill_score s \<le> 10))"
proof -
  have h1: "constraints_on_scale example_constraints"
    by (simp add: constraints_on_scale_def on_scale_def example_constraints_def)
  have h0: "option_on_scale example_option"
    by (simp add: option_on_scale_def on_scale_def example_option_def)
  then have h2: "\<forall>opt \<in> set [example_option]. option_on_scale opt" by simp
  from C4_dimension_scores_in_range [OF h1 h2] h1 h0 show ?thesis by blast
qed

subsection \<open>The order of the returned scores\<close>



section \<open>Properties of the trade-off generator\<close>

subsection \<open>Helper facts\<close>

lemma calculate_impact_iff:
  "(calculate_impact g = ''high'' \<longleftrightarrow> g \<ge> 4) \<and>
   (calculate_impact g = ''medium'' \<longleftrightarrow> 2 \<le> g \<and> g < 4) \<and>
   (calculate_impact g = ''low'' \<longleftrightarrow> g < 2)"
  by (simp add: calculate_impact_def)

lemma compare_dimension_length:
  "length (compare_dimension d ph a b x y) = (if \<bar>x - y\<bar> > 1 then 1 else 0)"
  by (simp add: compare_dimension_def Let_def)

lemma compare_dimension_fields:
  assumes "t \<in> set (compare_dimension d ph a b x y)"
  shows "option_a t = name a \<and> option_b t = name b \<and> dimension t = d \<and>
         winner t = (if x > y then name a else name b) \<and>
         impact t = calculate_impact \<bar>x - y\<bar> \<and> \<bar>x - y\<bar> > 1"
  using assms by (auto simp: compare_dimension_def Let_def split: if_splits)

lemma filter_compare_dimension:
  "filter (\<lambda>t. dimension t = d) (compare_dimension d' ph a b x y) =
     (if d = d' then compare_dimension d' ph a b x y else [])"
  by (auto simp: compare_dimension_def Let_def)

lemma extend_each_iff:
  "extend_each lookup opts ps = Inr ts \<longleftrightarrow>
     (\<exists>tss. list_all2 (\<lambda>p ts'. pair_tradeoffs lookup opts p = Inr ts') ps tss \<and> ts = concat tss)"
proof (induction ps arbitrary: ts)
  case Nil
  then show ?case by auto
next
  case (Cons p ps)
  show ?case
  proof
    assume "extend_each lookup opts (p # ps) = Inr ts"
    then obtain t1 t2 where p: "pair_tradeoffs lookup opts p = Inr t1"
      and r: "extend_each lookup opts ps = Inr t2" and ts: "ts = t1 @ t2"
      by (auto split: sum.splits)
    from r Cons.IH obtain tss where
      "list_all2 (\<lambda>p ts'. pair_tradeoffs lookup opts p = Inr ts') ps tss" "t2 = concat tss"
      by blast
    with p ts have "list_all2 (\<lambda>p ts'. pair_tradeoffs lookup opts p = Inr ts') (p # ps) (t1 # tss)
        \<and> ts = concat (t1 # tss)" by simp
    then show "\<exists>tss. list_all2 (\<lambda>p ts'. pair_tradeoffs lookup opts p = Inr ts') (p # ps) tss \<and>
        ts = concat tss" by blast
  next
    assume "\<exists>tss. list_all2 (\<lambda>p ts'. pair_tradeoffs lookup opts p = Inr ts') (p # ps) tss \<and>
        ts = concat tss"
    then obtain tss where a: "list_all2 (\<lambda>p ts'. pair_tradeoffs lookup opts p = Inr ts') (p # ps) tss"
      and ts: "ts = concat tss" by blast
    from a obtain t1 rest where tss: "tss = t1 # rest"
      and p: "pair_tradeoffs lookup opts p = Inr t1"
      and r: "list_all2 (\<lambda>p ts'. pair_tradeoffs lookup opts p = Inr ts') ps rest"
      by (auto simp: list_all2_Cons1)
    from r Cons.IH[of "concat rest"] have "extend_each lookup opts ps = Inr (concat rest)" by blast
    with p ts tss show "extend_each lookup opts (p # ps) = Inr ts" by simp
  qed
qed

lemma pair_tradeoffs_iff:
  "pair_tradeoffs lookup opts ij = Inr ts \<longleftrightarrow>
     (\<exists>sa sb. lookup (name (opts ! fst ij)) = Some sa \<and> lookup (name (opts ! snd ij)) = Some sb \<and>
        ts = compare_options (opts ! fst ij) (opts ! snd ij) sa sb)"
  by (auto simp: pair_tradeoffs_def Let_def split: option.splits)

lemma generate_tradeoffs_iff:
  "generate_tradeoffs opts score_list = Inr ts \<longleftrightarrow>
     (\<exists>tss. ts = concat tss \<and>
        list_all2 (\<lambda>ij ts'. \<exists>sa sb.
            score_lookup score_list (name (opts ! fst ij)) = Some sa \<and>
            score_lookup score_list (name (opts ! snd ij)) = Some sb \<and>
            ts' = compare_options (opts ! fst ij) (opts ! snd ij) sa sb)
          (index_pairs (length opts)) tss)"
  unfolding generate_tradeoffs_def extend_each_iff pair_tradeoffs_iff by blast

lemma set_index_pairs: "set (index_pairs n) = {(i, j). i < j \<and> j < n}"
proof -
  have "(a, b) \<in> set (index_pairs n)" if "a < b" "b < n" for a b
  proof -
    from that have "a \<in> set [0..<n]" "(a, b) \<in> set (map (\<lambda>j. (a, j)) [a + 1..<n])" by auto
    then show ?thesis unfolding index_pairs_def by (auto intro!: bexI[of _ a])
  qed
  moreover have "a < b \<and> b < n" if "(a, b) \<in> set (index_pairs n)" for a b
    using that by (auto simp: index_pairs_def)
  ultimately show ?thesis by auto
qed

lemma distinct_index_pairs: "distinct (index_pairs n)"
proof -
  let ?row = "\<lambda>i. map (\<lambda>j. (i, j)) [i + 1..<n]"
  have inj: "inj_on ?row (set [0..<n])"
  proof (rule inj_onI)
    fix x y assume xy: "x \<in> set [0..<n]" "y \<in> set [0..<n]" and eq: "?row x = ?row y"
    from eq have "length (?row x) = length (?row y)" by simp
    with xy show "x = y" by simp
  qed
  have "distinct (map ?row [0..<n])" using inj by (simp add: distinct_map)
  moreover have "\<And>ys. ys \<in> set (map ?row [0..<n]) \<Longrightarrow> distinct ys"
    by (auto simp: distinct_map inj_on_def)
  moreover have "\<And>ys zs. ys \<in> set (map ?row [0..<n]) \<Longrightarrow> zs \<in> set (map ?row [0..<n]) \<Longrightarrow>
      ys \<noteq> zs \<Longrightarrow> set ys \<inter> set zs = {}"
    by auto
  ultimately show ?thesis unfolding index_pairs_def by (rule distinct_concat)
qed

lemma score_lookup_fold:
  "fold (\<lambda>s m. m(option_name s \<mapsto> s)) score_list m k \<noteq> None \<longleftrightarrow>
     k \<in> option_name ` set score_list \<or> m k \<noteq> None"
  by (induction score_list arbitrary: m) auto

lemma dom_score_lookup: "dom (score_lookup score_list) = option_name ` set score_list"
  using score_lookup_fold[of score_list Map.empty] by (auto simp: score_lookup_def)

lemma extend_each_total:
  "(\<forall>p \<in> set ps. \<exists>ts. pair_tradeoffs lookup opts p = Inr ts) \<Longrightarrow>
     \<exists>ts. extend_each lookup opts ps = Inr ts"
  by (induction ps) (auto split: sum.splits)

lemma generate_tradeoffs_total:
  assumes "\<forall>opt \<in> set opts. name opt \<in> option_name ` set score_list"
  shows "\<exists>ts. generate_tradeoffs opts score_list = Inr ts"
proof -
  have "\<exists>ts. pair_tradeoffs (score_lookup score_list) opts p = Inr ts"
    if "p \<in> set (index_pairs (length opts))" for p
  proof -
    from that have "fst p < length opts" "snd p < length opts"
      by (auto simp: set_index_pairs)
    then have "opts ! fst p \<in> set opts" "opts ! snd p \<in> set opts" by simp_all
    with assms have "name (opts ! fst p) \<in> dom (score_lookup score_list)"
      "name (opts ! snd p) \<in> dom (score_lookup score_list)"
      by (simp_all add: dom_score_lookup)
    then show ?thesis by (auto simp: pair_tradeoffs_iff)
  qed
  then show ?thesis
    unfolding generate_tradeoffs_def by (intro extend_each_total) blast
qed

lemma filter_compare_options_cases:
  "filter (\<lambda>t. dimension t = ''cost'') (compare_options a b sa sb) =
     compare_dimension ''cost'' '' is more cost-effective than '' a b (cost_score sa) (cost_score sb)"
  "filter (\<lambda>t. dimension t = ''latency'') (compare_options a b sa sb) =
     compare_dimension ''latency'' '' offers better latency performance than '' a b
       (latency_score sa) (latency_score sb)"
  "filter (\<lambda>t. dimension t = ''scalability'') (compare_options a b sa sb) =
     compare_dimension ''scalability'' '' scales better than '' a b
       (scalability_score sa) (scalability_score sb)"
  "filter (\<lambda>t. dimension t = ''compliance'') (compare_options a b sa sb) =
     compare_dimension ''compliance'' '' better meets compliance requirements than '' a b
       (compliance_score sa) (compliance_score sb)"
  "filter (\<lambda>t. dimension t = ''cloud'') (compare_options a b sa sb) =
     compare_dimension ''cloud'' '' better aligns with cloud preferences than '' a b
       (cloud_score sa) (cloud_score sb)"
  "filter (\<lambda>t. dimension t = ''skill'') (compare_options a b sa sb) =
     compare_dimension ''skill'' '' better matches team skill level than '' a b
       (skill_score sa) (skill_score sb)"
  by (simp_all add: compare_options_def filter_compare_dimension)


lemma compare_options_dimension:
  assumes "d \<in> set dimensions"
  shows "length (filter (\<lambda>t. dimension t = d) (compare_options a b sa sb)) =
           (if \<bar>dimension_score d sa - dimension_score d sb\<bar> > 1 then 1 else 0) \<and>
         (\<forall>t \<in> set (filter (\<lambda>t. dimension t = d) (compare_options a b sa sb)).
            option_a t = name a \<and> option_b t = name b \<and>
            winner t = (if dimension_score d sa > dimension_score d sb then name a else name b) \<and>
            impact t = calculate_impact \<bar>dimension_score d sa - dimension_score d sb\<bar> \<and>
            \<bar>dimension_score d sa - dimension_score d sb\<bar> > 1)"
proof -
  from assms consider "d = ''cost''" | "d = ''latency''" | "d = ''scalability''"
    | "d = ''compliance''" | "d = ''cloud''" | "d = ''skill''"
    unfolding dimensions_def by fastforce
  then show ?thesis
  proof cases
    case 1
    have "dimension_score d sa = cost_score sa" "dimension_score d sb = cost_score sb"
      by (simp_all add: 1 dimension_score_def)
    then show ?thesis unfolding 1 filter_compare_options_cases(1)
      using compare_dimension_fields compare_dimension_length by metis
  next
    case 2
    have "dimension_score d sa = latency_score sa" "dimension_score d sb = latency_score sb"
      by (simp_all add: 2 dimension_score_def)
    then show ?thesis unfolding 2 filter_compare_options_cases(2)
      using compare_dimension_fields compare_dimension_length by metis
  next
    case 3
    have "dimension_score d sa = scalability_score sa" "dimension_score d sb = scalability_score sb"
      by (simp_all add: 3 dimension_score_def)
    then show ?thesis unfolding 3 filter_compare_options_cases(3)
      using compare_dimension_fields compare_dimension_length by metis
  next
    case 4
    have "dimension_score d sa = compliance_score sa" "dimension_score d sb = compliance_score sb"
      by (simp_all add: 4 dimension_score_def)
    then show ?thesis unfolding 4 filter_compare_options_cases(4)
      using compare_dimension_fields compare_dimension_length by metis
  next
    case 5
    have "dimension_score d sa = cloud_score sa" "dimension_score d sb = cloud_score sb"
      by (simp_all add: 5 dimension_score_def)
    then show ?thesis unfolding 5 filter_compare_options_cases(5)
      using compare_dimension_fields compare_dimension_length by metis
  next
    case 6
    have "dimension_score d sa = skill_score sa" "dimension_score d sb = skill_score sb"
      by (simp_all add: 6 dimension_score_def)
    then show ?thesis unfolding 6 filter_compare_options_cases(6)
      using compare_dimension_fields compare_dimension_length by metis
  qed
qed

lemma map_dimension_compare_dimension:
  "subseq (map dimension (compare_dimension d ph a b x y)) [d]"
  by (simp add: compare_dimension_def Let_def)

lemma subseq_compare_options:
  "subseq (map dimension (compare_options a b sa sb)) dimensions"
proof -
  have d: "dimensions = [''cost''] @ [''latency''] @ [''scalability''] @ [''compliance''] @
      [''cloud''] @ [''skill'']"
    by (simp add: dimensions_def)
  show ?thesis
    unfolding compare_options_def d map_append
    by (intro list_emb_append_mono map_dimension_compare_dimension)
qed

lemma compare_options_fields:
  assumes "t \<in> set (compare_options a b sa sb)"
  shows "option_a t = name a \<and> option_b t = name b \<and>
         (winner t = option_a t \<or> winner t = option_b t) \<and> dimension t \<in> set dimensions"
proof -
  have one: "option_a t = name a \<and> option_b t = name b \<and>
         (winner t = option_a t \<or> winner t = option_b t) \<and> dimension t = d"
    if "t \<in> set (compare_dimension d ph a b x y)" for d ph x y
    using compare_dimension_fields[OF that] by presburger
  from assms show ?thesis
    unfolding compare_options_def set_append Un_iff dimensions_def
    using one by (metis list.set_intros)
qed

lemma pair_scores: "score_options [option_B, option_A] pair_constraints = Inr [score_A, score_B]"
  by (simp add: score_options_def sorted_reverse_def score_single_option_def
      option_A_def option_B_def pair_constraints_def score_A_def score_B_def
      score_cost_def score_latency_def score_scalability_def score_compliance_def
      score_cloud_def score_skill_def weighted_sum_def weight_simps round2_def Let_def)

lemma pair_tradeoffs_example:
  "generate_tradeoffs [option_B, option_A] [score_A, score_B] =
     Inr [\<lparr>option_a = ''B'', option_b = ''A'', dimension = ''cost'', winner = ''A'',
           explanation = ''A is more cost-effective than B'', impact = ''high''\<rparr>,
          \<lparr>option_a = ''B'', option_b = ''A'', dimension = ''latency'', winner = ''B'',
           explanation = ''B offers better latency performance than A'', impact = ''medium''\<rparr>,
          \<lparr>option_a = ''B'', option_b = ''A'', dimension = ''scalability'', winner = ''B'',
           explanation = ''B scales better than A'', impact = ''low''\<rparr>,
          \<lparr>option_a = ''B'', option_b = ''A'', dimension = ''cloud'', winner = ''A'',
           explanation = ''A better aligns with cloud preferences than B'', impact = ''high''\<rparr>,
          \<lparr>option_a = ''B'', option_b = ''A'', dimension = ''skill'', winner = ''A'',
           explanation = ''A better matches team skill level than B'', impact = ''medium''\<rparr>]"
  by (simp add: generate_tradeoffs_def index_pairs_def score_lookup_def pair_tradeoffs_def
      compare_options_def compare_dimension_def calculate_impact_def
      option_A_def option_B_def score_A_def score_B_def Let_def)

lemma expected_tradeoffs_example: "generate_tradeoffs [option_B, option_A] [score_A, score_B] = Inr expected_tradeoffs"
  by (simp add: pair_tradeoffs_example expected_tradeoffs_def)


subsection \<open>Which trade-offs are emitted\<close>

text \<open>
  C6: for a pair of options and each of the six dimensions, \<open>compare_options\<close> emits
  one trade-off when the absolute difference of the two scores of the dimension is
  greater than 1, and none otherwise; the winner is the option with the higher score of
  the dimension; the impact is high iff the gap is at least 4, medium iff it is at least
  2 and below 4, low iff it is above 1 and below 2. \<open>generate_tradeoffs\<close> returns the
  concatenation of these lists over the index pairs \<open>i < j\<close>, each visited once.
\<close>

theorem C6_tradeoff_emission:
  "(\<forall>d \<in> set dimensions.
      (let gap = \<bar>dimension_score d sa - dimension_score d sb\<bar>;
           emitted = filter (\<lambda>t. dimension t = d) (compare_options a b sa sb)
       in length emitted = (if gap > 1 then 1 else 0) \<and>
          (\<forall>t \<in> set emitted.
             option_a t = name a \<and> option_b t = name b \<and>
             (dimension_score d sa > dimension_score d sb \<and> winner t = name a \<or>
              dimension_score d sb > dimension_score d sa \<and> winner t = name b) \<and>
             (impact t = ''high'' \<longleftrightarrow> gap \<ge> 4) \<and>
             (impact t = ''medium'' \<longleftrightarrow> 2 \<le> gap \<and> gap < 4) \<and>
             (impact t = ''low'' \<longleftrightarrow> 1 < gap \<and> gap < 2)))) \<and>
   (\<forall>t \<in> set (compare_options a b sa sb). dimension t \<in> set dimensions) \<and>
   (generate_tradeoffs opts score_list = Inr ts \<longleftrightarrow>
      (\<exists>tss. ts = concat tss \<and>
         list_all2 (\<lambda>ij ts'. \<exists>score_a score_b.
             score_lookup score_list (name (opts ! fst ij)) = Some score_a \<and>
             score_lookup score_list (name (opts ! snd ij)) = Some score_b \<and>
             ts' = compare_options (opts ! fst ij) (opts ! snd ij) score_a score_b)
           (index_pairs (length opts)) tss)) \<and>
   set (index_pairs n) = {(i, j). i < j \<and> j < n} \<and> distinct (index_pairs n)"
proof -
  have emission: "\<forall>d \<in> set dimensions.
      (let gap = \<bar>dimension_score d sa - dimension_score d sb\<bar>;
           emitted = filter (\<lambda>t. dimension t = d) (compare_options a b sa sb)
       in length emitted = (if gap > 1 then 1 else 0) \<and>
          (\<forall>t \<in> set emitted.
             option_a t = name a \<and> option_b t = name b \<and>
             (dimension_score d sa > dimension_score d sb \<and> winner t = name a \<or>
              dimension_score d sb > dimension_score d sa \<and> winner t = name b) \<and>
             (impact t = ''high'' \<longleftrightarrow> gap \<ge> 4) \<and>
             (impact t = ''medium'' \<longleftrightarrow> 2 \<le> gap \<and> gap < 4) \<and>
             (impact t = ''low'' \<longleftrightarrow> 1 < gap \<and> gap < 2)))"
  proof (rule ballI)
    fix d assume d: "d \<in> set dimensions"
    let ?x = "dimension_score d sa" and ?y = "dimension_score d sb"
    let ?emitted = "filter (\<lambda>t. dimension t = d) (compare_options a b sa sb)"
    note cod = compare_options_dimension[OF d, of a b sa sb]
    from cod have len: "length ?emitted = (if \<bar>?x - ?y\<bar> > 1 then 1 else 0)"
      by (rule conjunct1)
    from cod have fields: "\<forall>t \<in> set ?emitted.
            option_a t = name a \<and> option_b t = name b \<and>
            winner t = (if ?x > ?y then name a else name b) \<and>
            impact t = calculate_impact \<bar>?x - ?y\<bar> \<and> \<bar>?x - ?y\<bar> > 1"
      by (rule conjunct2)
    have each: "\<forall>t \<in> set ?emitted.
             option_a t = name a \<and> option_b t = name b \<and>
             (?x > ?y \<and> winner t = name a \<or> ?y > ?x \<and> winner t = name b) \<and>
             (impact t = ''high'' \<longleftrightarrow> \<bar>?x - ?y\<bar> \<ge> 4) \<and>
             (impact t = ''medium'' \<longleftrightarrow> 2 \<le> \<bar>?x - ?y\<bar> \<and> \<bar>?x - ?y\<bar> < 4) \<and>
             (impact t = ''low'' \<longleftrightarrow> 1 < \<bar>?x - ?y\<bar> \<and> \<bar>?x - ?y\<bar> < 2)"
    proof (rule ballI)
      fix t assume t: "t \<in> set ?emitted"
      note f = bspec[OF fields t]
      from f have oa: "option_a t = name a" and ob: "option_b t = name b"
        and wi: "winner t = (if ?x > ?y then name a else name b)"
        and im: "impact t = calculate_impact \<bar>?x - ?y\<bar>" and g: "\<bar>?x - ?y\<bar> > 1"
        by simp_all
      from g have ne: "?x \<noteq> ?y" by auto
      have w: "?x > ?y \<and> winner t = name a \<or> ?y > ?x \<and> winner t = name b"
      proof (cases "?x > ?y")
        case True with wi show ?thesis by simp
      next
        case False
        with ne have "?y > ?x" by simp
        with False wi show ?thesis by simp
      qed
      have i1: "impact t = ''high'' \<longleftrightarrow> \<bar>?x - ?y\<bar> \<ge> 4"
        and i2: "impact t = ''medium'' \<longleftrightarrow> 2 \<le> \<bar>?x - ?y\<bar> \<and> \<bar>?x - ?y\<bar> < 4"
        and i3: "impact t = ''low'' \<longleftrightarrow> 1 < \<bar>?x - ?y\<bar> \<and> \<bar>?x - ?y\<bar> < 2"
        unfolding im using g calculate_impact_iff[of "\<bar>?x - ?y\<bar>"] by simp_all
      show "option_a t = name a \<and> option_b t = name b \<and>
             (?x > ?y \<and> winner t = name a \<or> ?y > ?x \<and> winner t = name b) \<and>
             (impact t = ''high'' \<longleftrightarrow> \<bar>?x - ?y\<bar> \<ge> 4) \<and>
             (impact t = ''medium'' \<longleftrightarrow> 2 \<le> \<bar>?x - ?y\<bar> \<and> \<bar>?x - ?y\<bar> < 4) \<and>
             (impact t = ''low'' \<longleftrightarrow> 1 < \<bar>?x - ?y\<bar> \<and> \<bar>?x - ?y\<bar> < 2)"
        by (intro conjI oa ob w i1 i2 i3)
    qed
    show "let gap = \<bar>?x - ?y\<bar>; emitted = ?emitted
       in length emitted = (if gap > 1 then 1 else 0) \<and>
          (\<forall>t \<in> set emitted.
             option_a t = name a \<and> option_b t = name b \<and>
             (?x > ?y \<and> winner t = name a \<or> ?y > ?x \<and> winner t = name b) \<and>
             (impact t = ''high'' \<longleftrightarrow> gap \<ge> 4) \<and>
             (impact t = ''medium'' \<longleftrightarrow> 2 \<le> gap \<and> gap < 4) \<and>
             (impact t = ''low'' \<longleftrightarrow> 1 < gap \<and> gap < 2))"
      unfolding Let_def by (intro conjI len each)
  qed
  have dims: "\<forall>t \<in> set (compare_options a b sa sb). dimension t \<in> set dimensions"
    using compare_options_fields by blast
  show ?thesis
    by (intro conjI emission dims generate_tradeoffs_iff set_index_pairs distinct_index_pairs)
qed

theorem C6_tradeoff_emission_witness:
  "''cost'' \<in> set dimensions \<and>
   map (\<lambda>t. (option_a t, option_b t, winner t, impact t))
     (filter (\<lambda>t. dimension t = ''cost'')
        (compare_options option_B option_A score_B score_A)) = [(''B'', ''A'', ''A'', ''high'')] \<and>
   (\<exists>tss. expected_tradeoffs = concat tss \<and>
         list_all2 (\<lambda>ij ts'. \<exists>score_a score_b.
             score_lookup [score_A, score_B] (name ([option_B, option_A] ! fst ij)) = Some score_a \<and>
             score_lookup [score_A, score_B] (name ([option_B, option_A] ! snd ij)) = Some score_b \<and>
             ts' = compare_options ([option_B, option_A] ! fst ij) ([option_B, option_A] ! snd ij)
                     score_a score_b)
           (index_pairs (length [option_B, option_A])) tss)"
proof -
  note inst = C6_tradeoff_emission [where sa = score_B and sb = score_A and a = option_B and b = option_A
      and opts = "[option_B, option_A]" and score_list = "[score_A, score_B]"
      and ts = expected_tradeoffs]
  let ?emitted = "filter (\<lambda>t. dimension t = ''cost'')
        (compare_options option_B option_A score_B score_A)"
  have d: "''cost'' \<in> set dimensions" by (simp add: dimensions_def)
  have x: "dimension_score ''cost'' score_B = 5" "dimension_score ''cost'' score_A = 10"
    by (simp_all add: dimension_score_def score_A_def score_B_def)
  have n: "name option_A = ''A''" "name option_B = ''B''"
    by (simp_all add: option_A_def option_B_def)
  from inst[THEN conjunct1, THEN bspec, OF d]
  have len: "length ?emitted = 1"
    and each: "\<forall>t \<in> set ?emitted. option_a t = ''B'' \<and> option_b t = ''A'' \<and>
        winner t = ''A'' \<and> impact t = ''high''"
    unfolding Let_def x n by simp_all
  from len obtain t where t: "?emitted = [t]"
    by (cases ?emitted) simp_all
  with each have "option_a t = ''B'' \<and> option_b t = ''A'' \<and> winner t = ''A'' \<and> impact t = ''high''"
    by simp
  with t have a: "map (\<lambda>t. (option_a t, option_b t, winner t, impact t)) ?emitted =
      [(''B'', ''A'', ''A'', ''high'')]" by simp
  from inst[THEN conjunct2, THEN conjunct2, THEN conjunct1] expected_tradeoffs_example
  have b: "\<exists>tss. expected_tradeoffs = concat tss \<and>
         list_all2 (\<lambda>ij ts'. \<exists>score_a score_b.
             score_lookup [score_A, score_B] (name ([option_B, option_A] ! fst ij)) = Some score_a \<and>
             score_lookup [score_A, score_B] (name ([option_B, option_A] ! snd ij)) = Some score_b \<and>
             ts' = compare_options ([option_B, option_A] ! fst ij) ([option_B, option_A] ! snd ij)
                     score_a score_b)
           (index_pairs (length [option_B, option_A])) tss"
    by (rule iffD1)
  show ?thesis by (intro conjI) (rule d, rule a, rule b)
qed

subsection \<open>Orientation and order of the trade-offs\<close>

text \<open>
  C10: in every trade-off that \<open>generate_tradeoffs\<close> returns, \<open>option_a\<close> is the name
  of an option at an index strictly below the index of the option named by
  \<open>option_b\<close>, the winner is one of the two, and the trade-offs of one pair follow the
  order cost, latency, scalability, compliance, cloud, skill.
\<close>

theorem C10_tradeoff_orientation:
  "subseq (map dimension (compare_options a b sa sb)) dimensions \<and>
   (generate_tradeoffs opts score_list = Inr ts \<longrightarrow>
      (\<forall>t \<in> set ts. \<exists>i j. i < j \<and> j < length opts \<and>
          option_a t = name (opts ! i) \<and> option_b t = name (opts ! j) \<and>
          (winner t = option_a t \<or> winner t = option_b t)) \<and>
      (\<exists>tss. ts = concat tss \<and>
         list_all2 (\<lambda>ij ts'. fst ij < snd ij \<and> snd ij < length opts \<and>
             (\<forall>t \<in> set ts'. option_a t = name (opts ! fst ij) \<and>
                              option_b t = name (opts ! snd ij)) \<and>
             subseq (map dimension ts') dimensions)
           (index_pairs (length opts)) tss))"
proof -
  have main: "(\<forall>t \<in> set ts. \<exists>i j. i < j \<and> j < length opts \<and>
          option_a t = name (opts ! i) \<and> option_b t = name (opts ! j) \<and>
          (winner t = option_a t \<or> winner t = option_b t)) \<and>
      (\<exists>tss. ts = concat tss \<and>
         list_all2 (\<lambda>ij ts'. fst ij < snd ij \<and> snd ij < length opts \<and>
             (\<forall>t \<in> set ts'. option_a t = name (opts ! fst ij) \<and>
                              option_b t = name (opts ! snd ij)) \<and>
             subseq (map dimension ts') dimensions)
           (index_pairs (length opts)) tss)"
    if g: "generate_tradeoffs opts score_list = Inr ts"
  proof -
    let ?P = "\<lambda>ij ts'. \<exists>score_a score_b.
            score_lookup score_list (name (opts ! fst ij)) = Some score_a \<and>
            score_lookup score_list (name (opts ! snd ij)) = Some score_b \<and>
            ts' = compare_options (opts ! fst ij) (opts ! snd ij) score_a score_b"
    let ?Q = "\<lambda>ij ts'. fst ij < snd ij \<and> snd ij < length opts \<and>
             (\<forall>t \<in> set ts'. option_a t = name (opts ! fst ij) \<and>
                              option_b t = name (opts ! snd ij) \<and>
                              (winner t = option_a t \<or> winner t = option_b t)) \<and>
             subseq (map dimension ts') dimensions"
    from g obtain tss where ts: "ts = concat tss"
      and all: "list_all2 ?P (index_pairs (length opts)) tss"
      unfolding generate_tradeoffs_iff by blast
    have step: "?Q ij ts'" if "ij \<in> set (index_pairs (length opts))" "?P ij ts'" for ij ts'
    proof -
      from that(1) have "fst ij < snd ij" "snd ij < length opts"
        by (auto simp: set_index_pairs)
      moreover from that(2) obtain score_a score_b where
        eq: "ts' = compare_options (opts ! fst ij) (opts ! snd ij) score_a score_b" by blast
      have "\<forall>t \<in> set ts'. option_a t = name (opts ! fst ij) \<and>
                              option_b t = name (opts ! snd ij) \<and>
                              (winner t = option_a t \<or> winner t = option_b t)"
        unfolding eq using compare_options_fields by blast
      moreover have "subseq (map dimension ts') dimensions"
        unfolding eq by (rule subseq_compare_options)
      ultimately show ?thesis by blast
    qed
    have allQ: "list_all2 ?Q (index_pairs (length opts)) tss"
      by (rule list.rel_mono_strong[OF all]) (rule step)
    have first: "\<exists>i j. i < j \<and> j < length opts \<and>
          option_a t = name (opts ! i) \<and> option_b t = name (opts ! j) \<and>
          (winner t = option_a t \<or> winner t = option_b t)" if "t \<in> set ts" for t
    proof -
      from that ts obtain ts' where m: "ts' \<in> set tss" "t \<in> set ts'" by auto
      from m(1) obtain k where k: "k < length tss" "tss ! k = ts'"
        by (auto simp: in_set_conv_nth)
      define ij where "ij = index_pairs (length opts) ! k"
      from list_all2_nthD2[OF allQ k(1)] have q: "?Q ij ts'"
        unfolding ij_def k(2) .
      from q have "fst ij < snd ij" "snd ij < length opts" by simp_all
      moreover from q m(2) have "option_a t = name (opts ! fst ij)"
        "option_b t = name (opts ! snd ij)" "winner t = option_a t \<or> winner t = option_b t"
        by blast+
      ultimately show ?thesis by (intro exI[of _ "fst ij"] exI[of _ "snd ij"] conjI)
    qed
    have "list_all2 (\<lambda>ij ts'. fst ij < snd ij \<and> snd ij < length opts \<and>
             (\<forall>t \<in> set ts'. option_a t = name (opts ! fst ij) \<and>
                              option_b t = name (opts ! snd ij)) \<and>
             subseq (map dimension ts') dimensions) (index_pairs (length opts)) tss"
      using allQ by (rule list_all2_mono) simp
    then have "\<exists>tss. ts = concat tss \<and>
         list_all2 (\<lambda>ij ts'. fst ij < snd ij \<and> snd ij < length opts \<and>
             (\<forall>t \<in> set ts'. option_a t = name (opts ! fst ij) \<and>
                              option_b t = name (opts ! snd ij)) \<and>
             subseq (map dimension ts') dimensions) (index_pairs (length opts)) tss"
      using ts by (intro exI conjI)
    moreover from first have "\<forall>t \<in> set ts. \<exists>i j. i < j \<and> j < length opts \<and>
          option_a t = name (opts ! i) \<and> option_b t = name (opts ! j) \<and>
          (winner t = option_a t \<or> winner t = option_b t)" ..
    ultimately show ?thesis by (intro conjI)
  qed
  show ?thesis
    by (intro conjI impI subseq_compare_options) (rule main[THEN conjunct1], assumption,
        rule main[THEN conjunct2], assumption)
qed

theorem C10_tradeoff_orientation_witness:
  "generate_tradeoffs [option_B, option_A] [score_A, score_B] = Inr expected_tradeoffs \<and>
   (\<exists>i j. i < j \<and> j < length [option_B, option_A] \<and>
          option_a (hd expected_tradeoffs) = name ([option_B, option_A] ! i) \<and>
          option_b (hd expected_tradeoffs) = name ([option_B, option_A] ! j) \<and>
          (winner (hd expected_tradeoffs) = option_a (hd expected_tradeoffs) \<or>
           winner (hd expected_tradeoffs) = option_b (hd expected_tradeoffs))) \<and>
   map option_a expected_tradeoffs = [''B'', ''B'', ''B'', ''B'', ''B''] \<and>
   map dimension expected_tradeoffs = [''cost'', ''latency'', ''scalability'', ''cloud'', ''skill'']"
proof -
  have h: "hd expected_tradeoffs \<in> set expected_tradeoffs"
    by (simp add: expected_tradeoffs_def)
  note inst = C10_tradeoff_orientation [where opts = "[option_B, option_A]"
      and score_list = "[score_A, score_B]" and ts = expected_tradeoffs,
      THEN conjunct2, THEN mp, OF expected_tradeoffs_example, THEN conjunct1, THEN bspec, OF h]
  have m: "map dimension expected_tradeoffs =
      [''cost'', ''latency'', ''scalability'', ''cloud'', ''skill'']"
    by (simp add: expected_tradeoffs_def)
  have a: "map option_a expected_tradeoffs = [''B'', ''B'', ''B'', ''B'', ''B'']"
    by (simp add: expected_tradeoffs_def)
  show ?thesis by (intro conjI) (rule expected_tradeoffs_example, rule inst, rule a, rule m)
qed

section \<open>Properties of the narrative analyzer and of the request handlers\<close>

subsection \<open>Helper facts\<close>

lemma lower_example: "lower ''Database for a web app'' = ''database for a web app''"
  by (simp add: lower_def lower_char_def)

lemma sublist_simps:
  "sublist [] ys" "\<not> sublist (x # xs) []"
  "sublist (x # xs) (y # ys) \<longleftrightarrow> prefix (x # xs) (y # ys) \<or> sublist (x # xs) ys"
  by (simp_all add: sublist_Cons_right)

lemma pair_context:
  "analyze_context pair_constraints ''Database for a web app'' =
     \<lparr>primary_concern = ''team_capability'', risk_tolerance = ''medium'',
      decision_type = ''technical''\<rparr>"
  by (simp add: analyze_context_def pair_constraints_def lower_example sublist_simps Let_def)

lemma pair_recommendations:
  "generate_recommendations [option_B, option_A] [score_A, score_B] expected_tradeoffs
     \<lparr>primary_concern = ''team_capability'', risk_tolerance = ''medium'',
      decision_type = ''technical''\<rparr> =
   Inr [''Choice depends on priorities: A for overall balance, A for cost, B for performance'']"
  by (simp add: generate_recommendations_def context_recommendations_def
      risk_recommendations_def priorities_recommendation_def py_max_def
      score_A_def score_B_def)

lemma pair_insights:
  "generate_insights [option_B, option_A] [score_A, score_B] expected_tradeoffs =
     Inr [CriticalTradeoffs {''cost'', ''cloud''}]"
  by (simp add: generate_insights_def Let_def expected_tradeoffs_def sorted_reverse_def
      performance_def py_max_def py_min_def score_A_def score_B_def insert_commute)

lemma pair_risks:
  "identify_risks [option_B, option_A] [score_A, score_B] expected_tradeoffs =
     [''Choosing A over alternatives sacrifices cost performance'',
      ''Choosing A over alternatives sacrifices cloud performance'']"
  by (simp add: identify_risks_def score_risks_def expected_tradeoffs_def score_A_def score_B_def)

lemma pair_scenarios:
  "map_scenarios [option_B, option_A] [score_A, score_B] expected_tradeoffs =
     Inr [(''tight_budget'', ''A - most cost-effective option''),
          (''high_performance'', ''B - best performance characteristics''),
          (''quick_deployment'', ''A - matches current team skills''),
          (''enterprise_deployment'', ''A - strongest compliance and governance''),
          (''startup_mvp'', ''A - best overall balance for rapid iteration'')]"
  by (simp add: map_scenarios_def py_max_def performance_def Let_def score_A_def score_B_def)

lemma pair_summary:
  "generate_summary [option_B, option_A] [score_A, score_B]
     \<lparr>primary_concern = ''team_capability'', risk_tolerance = ''medium'',
      decision_type = ''technical''\<rparr> =
     Inr [Str ''Analyzed '', IntVal 2, Str '' technical options for your use case. '',
          Str ''A leads in overall scoring (weighted score: '', FloatVal (868 / 100), Str ''), '',
          Str ''but each option has distinct advantages depending on your specific priorities and constraints. '',
          Str ''The decision should align with your risk tolerance and long-term technical strategy.'']"
  by (simp add: generate_summary_def score_A_def)

lemma pair_analyze:
  "analyze [option_B, option_A] pair_constraints [score_A, score_B] expected_tradeoffs
     ''Database for a web app'' = Inr pair_analysis"
  by (simp add: analyze_def pair_context pair_insights pair_recommendations pair_risks
      pair_scenarios pair_summary pair_analysis_def)

lemma pair_compare:
  "compare pair_request =
     Inr \<lparr>comparison_id = None, scores = [score_A, score_B], tradeoffs = expected_tradeoffs,
          kiro_analysis = pair_analysis, timestamp = None\<rparr>"
  by (simp add: compare_def pair_request_def pair_scores expected_tradeoffs_example pair_analyze)

lemma single_scores:
  "score_options [example_option] example_constraints =
     Inr [\<lparr>option_name = ''Postgres'', total_score = 897 / 100, cost_score = 10,
           latency_score = 10, scalability_score = 88 / 10, compliance_score = 10,
           cloud_score = 8, skill_score = 7, weighted_score = 926 / 100\<rparr>]"
  by (simp add: score_options_def example_score sorted_reverse_def)

lemma single_scores_folded:
  "score_options [example_option] example_constraints = Inr [single_score]"
  by (simp add: single_scores single_score_def)

lemma single_tradeoffs: "generate_tradeoffs [example_option] [single_score] = Inr []"
  by (simp add: generate_tradeoffs_def index_pairs_def)

lemma single_context:
  "analyze_context example_constraints ''Database for a web app'' =
     \<lparr>primary_concern = ''team_capability'', risk_tolerance = ''medium'',
      decision_type = ''technical''\<rparr>"
  by (simp add: analyze_context_def example_constraints_def lower_example sublist_simps Let_def)

lemma single_analyze:
  "analyze [example_option] example_constraints [single_score] [] ''Database for a web app'' =
     Inr single_analysis"
  unfolding analyze_def single_context
  by (simp add: generate_insights_def generate_recommendations_def context_recommendations_def
      risk_recommendations_def priorities_recommendation_def identify_risks_def score_risks_def
      map_scenarios_def generate_summary_def py_max_def py_min_def performance_def
      sorted_reverse_def single_score_def single_analysis_def Let_def)

lemma single_compare: "compare single_request = Inr single_result"
  by (simp add: compare_def single_request_def single_scores_folded
      single_tradeoffs single_analyze single_result_def)

lemma single_option_row:
  "option_row cid single_result example_option =
     \<lparr>row_comparison_id = cid, row_option_name = ''Postgres'',
      option_data = example_option, score = 926 / 100\<rparr>"
  by (simp add: option_row_def single_result_def single_score_def example_option_def Let_def)

lemma blank_context:
  "analyze_context pair_constraints ''   '' =
     \<lparr>primary_concern = ''team_capability'', risk_tolerance = ''medium'',
      decision_type = ''technical''\<rparr>"
  by (simp add: analyze_context_def pair_constraints_def lower_def lower_char_def
      sublist_simps Let_def)

lemma blank_compare: "compare blank_request = Inr pair_result"
  by (simp add: compare_def blank_request_def pair_scores expected_tradeoffs_example
      analyze_def blank_context pair_insights pair_recommendations pair_risks
      pair_scenarios pair_summary pair_analysis_def pair_result_def)

lemma get_comparison_handler_not_found:
  assumes "tables_created db" "cid \<notin> set (map row_id (comparisons db))"
  shows "get_comparison_handler str_of db cid =
     Inl (HTTPException 500 (str_of (HTTPException 404 ''Comparison not found'')))"
proof -
  from assms(2) have "find (\<lambda>row. row_id row = cid) (comparisons db) = None"
    by (auto simp: find_None_iff)
  with assms(1) show ?thesis
    by (simp add: get_comparison_handler_def get_comparison_body_def get_comparison_def)
qed

lemma get_comparison_handler_status:
  "get_comparison_handler str_of db cid = Inl e \<Longrightarrow> \<exists>detail. e = HTTPException 500 detail"
  by (auto simp: get_comparison_handler_def split: sum.splits)

lemma py_max_nonempty: "xs \<noteq> [] \<Longrightarrow> \<exists>m. py_max k xs = Inr m"
  by (cases xs) (simp_all add: py_max_def)

lemma generate_recommendations_single:
  assumes "primary_concern context \<noteq> ''cost''" "primary_concern context \<noteq> ''performance''"
    "primary_concern context \<noteq> ''compliance''" "risk_tolerance context \<noteq> ''low''"
    "score_list \<noteq> []"
  shows "\<exists>r. generate_recommendations opts score_list ts context = Inr [r]"
proof -
  from assms(5) obtain leader rest where sl: "score_list = leader # rest" by (cases score_list) auto
  from py_max_nonempty[OF assms(5)] obtain c l where
    "py_max cost_score score_list = Inr c" "py_max latency_score score_list = Inr l" by metis
  with assms(1-4) sl show ?thesis
    by (simp add: generate_recommendations_def context_recommendations_def
        risk_recommendations_def priorities_recommendation_def)
qed

lemma no_option_compare: "compare no_option_request = Inl IndexError"
  by (simp add: compare_def no_option_request_def score_options_def sorted_reverse_def
      generate_tradeoffs_def index_pairs_def analyze_def generate_insights_def)

lemma no_option_handler:
  "compare_options_handler str_of example_env empty_db no_option_request =
     (Inl (HTTPException 500 (str_of IndexError)), empty_db)"
  by (simp add: compare_options_handler_def no_option_compare)

subsection \<open>The number of recommendations\<close>

text \<open>
  C8 fails on the code: for \<open>pair_request\<close>, a comparison of two options whose
  constraints give the primary concern team capability and whose use case gives a medium
  risk tolerance, the analysis holds exactly one recommendation, the closing one on
  priorities.
\<close>

theorem C8_single_recommendation:
  "length (options pair_request) = 2 \<and>
   (case compare pair_request of
      Inl e \<Rightarrow> False
    | Inr r \<Rightarrow> recommendations (kiro_analysis r) =
        [''Choice depends on priorities: A for overall balance, A for cost, B for performance''])"
  by (simp add: pair_compare pair_analysis_def) (simp add: pair_request_def)

subsection \<open>Validation of a comparison request\<close>

text \<open>
  C1 fails on the code: the handler of a comparison never calls \<open>validate_request\<close>. A
  request with one option, which \<open>validate_request\<close> rejects, is scored, stored and
  returned with its identifier, and so is a request of two options whose use case is
  blank. A request with no option fails only inside the analysis, with an
  \<open>IndexError\<close> reported as status 500.
\<close>

theorem C1_unvalidated_request_is_stored:
  "validate_request single_request =
     Inl (ValueError ''At least 2 options are required for comparison'') \<and>
   compare_options_handler str_of example_env empty_db single_request =
     (Inr (single_result\<lparr>comparison_id := Some (uuid4 example_env)\<rparr>),
      \<lparr>tables_created = True,
       comparisons =
         [\<lparr>row_id = uuid4 example_env, request_data = single_request,
           result_data = single_result, row_use_case = ''Database for a web app'',
           row_timestamp = now_isoformat example_env,
           created_at = current_timestamp example_env\<rparr>],
       comparison_options =
         [\<lparr>row_comparison_id = uuid4 example_env, row_option_name = ''Postgres'',
           option_data = example_option, score = 926 / 100\<rparr>]\<rparr>) \<and>
   validate_request blank_request = Inl (ValueError ''Use case description is required'') \<and>
   fst (compare_options_handler str_of example_env empty_db blank_request) =
     Inr (pair_result\<lparr>comparison_id := Some (uuid4 example_env)\<rparr>) \<and>
   map row_id (comparisons (snd (compare_options_handler str_of example_env empty_db blank_request)))
     = [uuid4 example_env] \<and>
   compare_options_handler str_of example_env empty_db no_option_request =
     (Inl (HTTPException 500 (str_of IndexError)), empty_db)"
proof -
  have v1: "validate_request single_request =
     Inl (ValueError ''At least 2 options are required for comparison'')"
    by (simp add: validate_request_def single_request_def)
  have v2: "validate_request blank_request = Inl (ValueError ''Use case description is required'')"
    by (simp add: validate_request_def blank_request_def strip_def is_space_def)
  have s1: "compare_options_handler str_of example_env empty_db single_request =
     (Inr (single_result\<lparr>comparison_id := Some (uuid4 example_env)\<rparr>),
      \<lparr>tables_created = True,
       comparisons =
         [\<lparr>row_id = uuid4 example_env, request_data = single_request,
           result_data = single_result, row_use_case = ''Database for a web app'',
           row_timestamp = now_isoformat example_env,
           created_at = current_timestamp example_env\<rparr>],
       comparison_options =
         [\<lparr>row_comparison_id = uuid4 example_env, row_option_name = ''Postgres'',
           option_data = example_option, score = 926 / 100\<rparr>]\<rparr>)"
    unfolding compare_options_handler_def single_compare
    by (simp add: store_comparison_def empty_db_def Let_def)
      (simp add: single_request_def single_option_row)
  have s2: "compare_options_handler str_of example_env empty_db blank_request =
     (Inr (pair_result\<lparr>comparison_id := Some (uuid4 example_env)\<rparr>),
      \<lparr>tables_created = True,
       comparisons =
         [\<lparr>row_id = uuid4 example_env, request_data = blank_request,
           result_data = pair_result, row_use_case = use_case blank_request,
           row_timestamp = now_isoformat example_env,
           created_at = current_timestamp example_env\<rparr>],
       comparison_options =
         map (option_row (uuid4 example_env) pair_result) (options blank_request)\<rparr>)"
    unfolding compare_options_handler_def blank_compare
    by (simp add: store_comparison_def empty_db_def Let_def)
  show ?thesis unfolding s2 using v1 v2 s1 no_option_handler by simp
qed

subsection \<open>Retrieving a comparison that is not stored\<close>

text \<open>
  C9 fails on the code: the handler raises its 404 inside the \<^verbatim>\<open>try\<close> block whose
  \<^verbatim>\<open>except Exception\<close> clause catches it, so an identifier that is not stored yields
  status 500, the status of a failure of the database.
\<close>

theorem C9_not_found_is_server_error:
  "get_comparison_handler str_of empty_db ''missing'' =
     Inl (HTTPException 500 (str_of (HTTPException 404 ''Comparison not found''))) \<and>
   get_comparison_handler str_of (empty_db\<lparr>tables_created := False\<rparr>) ''missing'' =
     Inl (HTTPException 500 (str_of (DatabaseError ''no such table: comparisons'')))"
  by (simp add: get_comparison_handler_def get_comparison_body_def get_comparison_def
      empty_db_def)

end
